theory Spec2Isabelle
  imports Main "HOL-Library.Sublist"
begin

section \<open>Strings\<close>

text \<open>
  A Python \<open>str\<close> is a sequence of Unicode code points, so a string is the list of
  its code points. The service's templates and messages are Korean: their text is written
  as code points, ASCII runs through \<open>asc\<close>.
\<close>

type_synonym pystr = "nat list"

definition asc :: "string \<Rightarrow> pystr" where
  "asc s = map of_char s"

section \<open>Request bodies and their validation\<close>

text \<open>
  A request body is a JSON value as \<open>json.loads\<close> returns it. Numbers with a
  fraction or an exponent (Python floats) are not part of the model.
\<close>

datatype json =
    JNull
  | JBool bool
  | JInt int
  | JStr pystr
  | JArr "json list"
  | JObj "(pystr \<times> json) list"

text \<open>A JSON object read into a \<open>dict\<close>: of two equal keys the later one stays.\<close>

definition dict_of :: "(pystr \<times> json) list \<Rightarrow> pystr \<Rightarrow> json option" where
  "dict_of kvs = map_of (rev kvs)"

text \<open>The values a validated field holds: \<open>None\<close>, a \<open>str\<close> or an \<open>int\<close>.\<close>

datatype pyval = PNone | PStr pystr | PInt int

text \<open>
  A field of a request class: \<open>name: t\<close> is \<open>Required t\<close>, and
  \<open>name: Optional[t] = d\<close> is \<open>Optional t d\<close>.
\<close>

datatype annotation = StrT | IntT

datatype field_info = Required annotation | Optional annotation pyval

type_synonym base_model = "(pystr \<times> field_info) list"

definition TopicRequest :: base_model where
  "TopicRequest =
     [(asc ''topic'', Required StrT),
      (asc ''field'', Optional StrT (PStr [])),
      (asc ''keywords'', Optional StrT (PStr [])),
      (asc ''purpose'', Optional StrT (PStr []))]"

definition LitReviewRequest :: base_model where
  "LitReviewRequest =
     [(asc ''topic'', Required StrT),
      (asc ''field'', Optional StrT (PStr [])),
      (asc ''keywords'', Optional StrT (PStr [])),
      (asc ''scope'', Optional StrT (PStr ([0xCD5C, 0xADFC] @ asc '' 5'' @ [0xB144]))),
      (asc ''known_papers'', Optional StrT (PStr []))]"

definition StructureRequest :: base_model where
  "StructureRequest =
     [(asc ''topic'', Required StrT),
      (asc ''field'', Optional StrT (PStr [])),
      (asc ''keywords'', Optional StrT (PStr [])),
      (asc ''paper_type'', Optional StrT (PStr [0xC6D0, 0xC800])),
      (asc ''methodology'', Optional StrT (PStr []))]"

definition IntroRequest :: base_model where
  "IntroRequest =
     [(asc ''topic'', Required StrT),
      (asc ''field'', Optional StrT (PStr [])),
      (asc ''keywords'', Optional StrT (PStr [])),
      (asc ''language'', Optional StrT (PStr [0xD55C, 0xAD6D, 0xC5B4]))]"

definition AbstractRequest :: base_model where
  "AbstractRequest =
     [(asc ''topic'', Required StrT),
      (asc ''field'', Optional StrT (PStr [])),
      (asc ''keywords'', Optional StrT (PStr [])),
      (asc ''word_count'', Optional IntT (PInt 250)),
      (asc ''language'', Optional StrT (PStr [0xD55C, 0xAD6D, 0xC5B4]))]"

definition JournalRequest :: base_model where
  "JournalRequest =
     [(asc ''topic'', Required StrT),
      (asc ''field'', Optional StrT (PStr [])),
      (asc ''keywords'', Optional StrT (PStr [])),
      (asc ''index_type'', Optional StrT (PStr (asc ''SCI/SCIE'')))]"

definition ReviewRequest :: base_model where
  "ReviewRequest =
     [(asc ''topic'', Required StrT),
      (asc ''reviewer_comment'', Required StrT),
      (asc ''language'', Optional StrT (PStr [0xD55C, 0xAD6D, 0xC5B4]))]"

text \<open>
  Validation is the work of the \<open>BaseModel\<close> base class (Pydantic, in its default lax
  mode on parsed JSON): a \<open>str\<close> field takes a JSON string only; an \<open>int\<close> field
  takes an integer, a boolean (as 0 or 1) or a string that spells an integer; an
  \<open>Optional\<close> field also takes \<open>null\<close>, which becomes \<open>None\<close>; an absent
  \<open>Optional\<close> field gets its default, an absent required field is an error. The
  string-to-integer reading covers an optional sign and decimal digits between blanks.
\<close>

definition is_space :: "nat \<Rightarrow> bool" where
  "is_space c = (c \<in> set [9, 10, 11, 12, 13, 32])"

definition strip :: "pystr \<Rightarrow> pystr" where
  "strip s = rev (dropWhile is_space (rev (dropWhile is_space s)))"

fun digits_value :: "pystr \<Rightarrow> nat \<Rightarrow> nat option" where
  "digits_value [] acc = Some acc"
| "digits_value (c # cs) acc =
     (if 48 \<le> c \<and> c \<le> 57 then digits_value cs (10 * acc + (c - 48)) else None)"

definition str_as_int :: "pystr \<Rightarrow> int option" where
  "str_as_int s =
     (case strip s of
        [] \<Rightarrow> None
      | c # cs \<Rightarrow>
          if c = 45 then (if cs = [] then None else map_option (\<lambda>n. - int n) (digits_value cs 0))
          else if c = 43 then (if cs = [] then None else map_option int (digits_value cs 0))
          else map_option int (digits_value (c # cs) 0))"

datatype error_type = Missing | String_type | Int_type | Int_parsing | Model_attributes_type

type_synonym validation_error = "pystr \<times> error_type"

fun coerce :: "pystr \<Rightarrow> annotation \<Rightarrow> json \<Rightarrow> validation_error + pyval" where
  "coerce k StrT (JStr s) = Inr (PStr s)"
| "coerce k StrT _ = Inl (k, String_type)"
| "coerce k IntT (JInt n) = Inr (PInt n)"
| "coerce k IntT (JBool b) = Inr (PInt (if b then 1 else 0))"
| "coerce k IntT (JStr s) =
     (case str_as_int s of Some n \<Rightarrow> Inr (PInt n) | None \<Rightarrow> Inl (k, Int_parsing))"
| "coerce k IntT _ = Inl (k, Int_type)"

fun validate_field :: "pystr \<Rightarrow> field_info \<Rightarrow> json option \<Rightarrow> validation_error + pyval" where
  "validate_field k (Required t) None = Inl (k, Missing)"
| "validate_field k (Required t) (Some j) = coerce k t j"
| "validate_field k (Optional t d) None = Inr d"
| "validate_field k (Optional t d) (Some j) = (if j = JNull then Inr PNone else coerce k t j)"

text \<open>
  A validated request: its attributes in the order of declaration. Validation goes
  through every field and reports all errors together.
\<close>

type_synonym request = "(pystr \<times> pyval) list"

fun model_validate ::
  "base_model \<Rightarrow> (pystr \<Rightarrow> json option) \<Rightarrow> validation_error list + request" where
  "model_validate [] d = Inr []"
| "model_validate ((k, fi) # fs) d =
     (case (validate_field k fi (d k), model_validate fs d) of
        (Inr v, Inr req) \<Rightarrow> Inr ((k, v) # req)
      | (Inl e, Inr req) \<Rightarrow> Inl [e]
      | (Inr v, Inl es) \<Rightarrow> Inl es
      | (Inl e, Inl es) \<Rightarrow> Inl (e # es))"

section \<open>Prompt templates\<close>

text \<open>
  Every handler builds its prompt with an f-string. Its parts are literal text,
  \<open>{req.a}\<close> (\<open>Attr\<close>) and \<open>{req.a or 'text'}\<close> (\<open>AttrOr\<close>).
\<close>

datatype fpart = Text pystr | Attr pystr | AttrOr pystr pystr

fun digits :: "nat \<Rightarrow> pystr" where
  "digits n = (if n < 10 then [48 + n] else digits (n div 10) @ [48 + n mod 10])"

declare digits.simps [simp del]

definition str_of_int :: "int \<Rightarrow> pystr" where
  "str_of_int n = (if n < 0 then 45 # digits (nat (- n)) else digits (nat n))"

text \<open>What \<open>str\<close> and an f-string placeholder write for a value.\<close>

fun py_str :: "pyval \<Rightarrow> pystr" where
  "py_str PNone = asc ''None''"
| "py_str (PStr s) = s"
| "py_str (PInt n) = str_of_int n"

text \<open>Truth value of a Python value, and \<open>a or b\<close>.\<close>

fun truthy :: "pyval \<Rightarrow> bool" where
  "truthy PNone = False"
| "truthy (PStr s) = (s \<noteq> [])"
| "truthy (PInt n) = (n \<noteq> 0)"

definition py_or :: "pyval \<Rightarrow> pyval \<Rightarrow> pyval" where
  "py_or a b = (if truthy a then a else b)"

text \<open>
  Reading an attribute: \<open>None\<close> of the option type stands for the
  \<open>AttributeError\<close> that an object without this attribute raises.
\<close>

definition getattr :: "request \<Rightarrow> pystr \<Rightarrow> pyval option" where
  "getattr req a = map_of req a"

fun part_str :: "request \<Rightarrow> fpart \<Rightarrow> pystr option" where
  "part_str req (Text s) = Some s"
| "part_str req (Attr a) = map_option py_str (getattr req a)"
| "part_str req (AttrOr a d) = map_option (\<lambda>v. py_str (py_or v (PStr d))) (getattr req a)"

fun f_string :: "request \<Rightarrow> fpart list \<Rightarrow> pystr option" where
  "f_string req [] = Some []"
| "f_string req (p # ps) =
     (case part_str req p of
        None \<Rightarrow> None
      | Some s \<Rightarrow> map_option (\<lambda>rest. s @ rest) (f_string req ps))"

definition analyze_topic_text0 :: pystr where
  "analyze_topic_text0 =
     [0xB2E4, 0xC74C, 0x20, 0xC5F0, 0xAD6C, 0x20, 0xC8FC, 0xC81C, 0xB97C] @ asc '' N2B '' @
     [0xD504, 0xB808, 0xC784, 0xC6CC, 0xD06C, 0xB85C, 0x20, 0xBD84, 0xC11D, 0xD574, 0xC8FC,
     0xC138, 0xC694, 0x2E, 0xA, 0xA, 0xC5F0, 0xAD6C, 0x20, 0xC8FC, 0xC81C, 0x3A, 0x20]"

definition analyze_topic_text1 :: pystr where
  "analyze_topic_text1 =
     [0xA, 0xBD84, 0xC57C, 0x3A, 0x20]"

definition analyze_topic_text2 :: pystr where
  "analyze_topic_text2 =
     [0xA, 0xD0A4, 0xC6CC, 0xB4DC, 0x3A, 0x20]"

definition analyze_topic_text3 :: pystr where
  "analyze_topic_text3 =
     [0xA, 0xC5F0, 0xAD6C, 0x20, 0xBAA9, 0xC801, 0x3A, 0x20]"

definition analyze_topic_text4 :: pystr where
  "analyze_topic_text4 =
     [0xA, 0xA, 0xB2E4, 0xC74C, 0x20, 0xAD6C, 0xC870, 0xB85C, 0x20, 0xBD84, 0xC11D, 0xD574,
     0xC8FC, 0xC138, 0xC694, 0x3A, 0xA, 0xA, 0x31, 0x2E, 0x20, 0xD604, 0xC7AC] @
     asc '' Best Practice (BP) 3'' @ [0xAC00, 0xC9C0, 0x20, 0x2014, 0x20, 0xC774, 0x20, 0xBD84,
     0xC57C, 0xC5D0, 0xC11C, 0x20, 0xD604, 0xC7AC, 0x20, 0xAC00, 0xC7A5, 0x20, 0xC798, 0x20,
     0xB418, 0xACE0, 0x20, 0xC788, 0xB294, 0x20, 0xAC83, 0xA] @ asc ''2. N2B '' @ [0xAD6C,
     0xC870, 0x20, 0xBD84, 0xC11D, 0x3A, 0xA] @ asc ''   - Not ('' @ [0xD604, 0xC7AC, 0x20,
     0x42, 0x50, 0xC758, 0x20, 0xBE48, 0xD2C8, 0x20, 0x35, 0xAC00, 0xC9C0, 0x29, 0x20, 0x2014,
     0x20, 0xAD6C, 0xCCB4, 0xC801, 0x20, 0xBB38, 0xD5CC, 0x20, 0xC778, 0xC6A9, 0x20, 0xD3EC,
     0xD568, 0xA] @ asc ''   - But ('' @ [0xADF8, 0xB7FC, 0xC5D0, 0xB3C4, 0x20, 0xBD88, 0xAD6C,
     0xD558, 0xACE0, 0x20, 0xAC00, 0xB2A5, 0xD55C, 0x20, 0xC0C8, 0x20, 0xC811, 0xADFC, 0x29,
     0xA] @ asc ''   - Because ('' @ [0xADF8, 0xB798, 0xC11C, 0x20, 0xC774, 0x20, 0xC5F0,
     0xAD6C, 0xAC00, 0x20, 0xD544, 0xC694, 0xD55C, 0x20, 0xC774, 0xC720, 0x2C, 0x20, 0x34,
     0xAC00, 0xC9C0, 0x20, 0xBC29, 0xD5A5, 0x20, 0xC81C, 0xC2DC, 0x29, 0xA, 0x33, 0x2E, 0x20,
     0xB17C, 0xBB38, 0xD654, 0x20, 0xAC00, 0xB2A5, 0xC131, 0x20, 0x28, 0xCC38, 0xC2E0, 0xC131,
     0x2F, 0xC2E4, 0xD604, 0xC131, 0x2F, 0xAE30, 0xC5EC, 0xB3C4, 0x2F, 0xC2DC, 0xC758, 0xC131,
     0x20, 0xAC01, 0x20, 0xBCC4, 0xC810, 0x29, 0xA, 0x34, 0x2E, 0x20, 0xCD94, 0xCC9C, 0x20,
     0xBE45, 0xB9E4, 0xCE58, 0x20, 0xAD6C, 0xB3C4, 0x20, 0x33, 0xAC00, 0xC9C0, 0x20, 0x2014,
     0x20, 0xBC18, 0xB4DC, 0xC2DC, 0x20, 0xB300, 0xB9BD, 0xD558, 0xB294, 0x20, 0xC774, 0xB984,
     0x20, 0xC30D, 0xC73C, 0xB85C, 0x20, 0x28, 0xC608, 0x3A, 0x20, 0x22, 0x4F, 0x4F, 0xD615,
     0x22, 0x20, 0x76, 0x73, 0x20, 0x22, 0x58, 0x58, 0xD615, 0x22, 0x29, 0xA, 0x35, 0x2E, 0x20,
     0xB2E4, 0xC74C, 0x20, 0xB2E8, 0xACC4, 0x20, 0xC548, 0xB0B4, 0xA, 0xA, 0xD14D, 0xC2A4,
     0xD2B8, 0x20, 0xAE30, 0xD638, 0x28, 0x2501, 0x2C, 0x20, 0x274C, 0x2C, 0x20, 0x26A1, 0x2C,
     0x20, 0x2705, 0x2C, 0x20, 0x1F3C6, 0x2C, 0x20, 0x1F94A, 0x2C, 0x20, 0x2726, 0x2C, 0x20,
     0x1F4A1, 0x29, 0xB97C, 0x20, 0xD65C, 0xC6A9, 0xD558, 0xC5EC, 0x20, 0xAD6C, 0xC870, 0xD654,
     0xD574, 0xC8FC, 0xC138, 0xC694, 0x2E]"

definition analyze_topic_prompt :: "fpart list" where
  "analyze_topic_prompt =
     [Text analyze_topic_text0,
      Attr (asc ''topic''),
      Text analyze_topic_text1,
      AttrOr (asc ''field'') [0xBBF8, 0xC9C0, 0xC815],
      Text analyze_topic_text2,
      AttrOr (asc ''keywords'') [0xBBF8, 0xC9C0, 0xC815],
      Text analyze_topic_text3,
      AttrOr (asc ''purpose'') [0xBBF8, 0xC9C0, 0xC815],
      Text analyze_topic_text4]"

definition literature_review_text0 :: pystr where
  "literature_review_text0 =
     [0xB2E4, 0xC74C, 0x20, 0xC5F0, 0xAD6C, 0x20, 0xC8FC, 0xC81C, 0xC5D0, 0x20, 0xB300,
     0xD55C] @ asc '' N2B '' @ [0xBB38, 0xD5CC, 0xB9AC, 0xBDF0, 0x20, 0xB9F5, 0xC744, 0x20,
     0xB9CC, 0xB4E4, 0xC5B4, 0xC8FC, 0xC138, 0xC694, 0x2E, 0xA, 0xA, 0xC5F0, 0xAD6C, 0x20,
     0xC8FC, 0xC81C, 0x3A, 0x20]"

definition literature_review_text1 :: pystr where
  "literature_review_text1 =
     [0xA, 0xBD84, 0xC57C, 0x3A, 0x20]"

definition literature_review_text2 :: pystr where
  "literature_review_text2 =
     [0xA, 0xD0A4, 0xC6CC, 0xB4DC, 0x3A, 0x20]"

definition literature_review_text3 :: pystr where
  "literature_review_text3 =
     [0xA, 0xAC80, 0xC0C9, 0x20, 0xBC94, 0xC704, 0x3A, 0x20]"

definition literature_review_text4 :: pystr where
  "literature_review_text4 =
     [0xA, 0xC5F0, 0xAD6C, 0xC790, 0x20, 0xC9C0, 0xC815, 0x20, 0xB17C, 0xBB38, 0x3A, 0x20]"

definition literature_review_text5 :: pystr where
  "literature_review_text5 =
     [0xA, 0xA, 0xB2E4, 0xC74C, 0x20, 0xAD6C, 0xC870, 0xB85C, 0x20, 0xC791, 0xC131, 0xD574,
     0xC8FC, 0xC138, 0xC694, 0x3A, 0xA, 0xA] @ asc ''1. N2B '' @ [0xACC4, 0xBCF4, 0x20, 0x28,
     0xC138, 0xB300, 0xBCC4, 0x20, 0xC9C4, 0xD654, 0x29, 0x3A, 0xA, 0x20, 0x20, 0x20, 0x2D,
     0x20, 0x31, 0xC138, 0xB300, 0x20, 0x28, 0xCD08, 0xAE30, 0x20, 0xC811, 0xADFC, 0x29, 0x3A,
     0x20, 0xC131, 0xACFC, 0x20, 0x2192] @ asc '' Not('' @ [0xBE48, 0xD2C8, 0x29, 0x20, 0x2192,
     0x20, 0xB300, 0xD45C, 0xBB38, 0xD5CC, 0xA, 0x20, 0x20, 0x20, 0x2D, 0x20, 0x32, 0xC138,
     0xB300, 0x20, 0x28, 0xBC29, 0xBC95, 0xB860, 0x20, 0xBC1C, 0xC804, 0x29, 0x3A, 0x20,
     0xC131, 0xACFC, 0x20, 0x2192] @ asc '' Not('' @ [0xBE48, 0xD2C8, 0x29, 0x20, 0x2192, 0x20,
     0xB300, 0xD45C, 0xBB38, 0xD5CC, 0xA, 0x20, 0x20, 0x20, 0x2D, 0x20, 0x33, 0xC138, 0xB300,
     0x20, 0x28, 0xD604, 0xC7AC, 0x20, 0x42, 0x50, 0x29, 0x3A, 0x20, 0xC131, 0xACFC, 0x20,
     0x2192] @ asc '' Not('' @ [0xBE48, 0xD2C8, 0x29, 0x20, 0x2192, 0x20, 0xB300, 0xD45C,
     0xBB38, 0xD5CC, 0xA, 0x20, 0x20, 0x20, 0x2D, 0x20, 0x34, 0xC138, 0xB300, 0x20, 0x28,
     0xC5F0, 0xAD6C, 0x20, 0xAE30, 0xD68C, 0x29, 0x3A, 0x20, 0xAC00, 0xB2A5, 0xC131, 0x20,
     0x2192] @ asc '' Not('' @ [0xBBF8, 0xAC1C, 0xCC99, 0x29, 0x20, 0x2192, 0x20, 0x2B50, 0x20,
     0xC5F0, 0xAD6C, 0x20, 0xAE30, 0xD68C, 0x21, 0xA, 0xA, 0x32, 0x2E, 0x20, 0xD575, 0xC2EC,
     0x20, 0xC120, 0xD589, 0xC5F0, 0xAD6C, 0x20, 0xBD84, 0xB958, 0x20, 0x28, 0xBD84, 0xC57C,
     0xBCC4, 0xB85C, 0x20, 0xC2E4, 0xC81C, 0x20, 0xC800, 0xC790, 0xBA85, 0xACFC, 0x20, 0xC5F0,
     0xB3C4, 0x20, 0xD3EC, 0xD568, 0x29, 0xA, 0xA, 0x33, 0x2E, 0x20, 0xC5F0, 0xAD6C, 0x20,
     0xAC2D, 0x20, 0xC694, 0xC57D, 0x20, 0x2014, 0x20, 0xD575, 0xC2EC, 0x20, 0xBE48, 0xD2C8,
     0x20, 0xD55C, 0x20, 0xBB38, 0xC7A5, 0xA, 0xA, 0xAC01, 0x20, 0xC138, 0xB300, 0x20, 0xC0AC,
     0xC774, 0xC5D0, 0x20, 0x22, 0x2193, 0x20, 0xBE48, 0xD2C8, 0xC774, 0x20, 0xB3D9, 0xAE30,
     0xAC00, 0x20, 0xB418, 0xC5B4, 0x2E, 0x2E, 0x2E, 0x22, 0x20, 0xD654, 0xC0B4, 0xD45C,
     0xB85C, 0x20, 0xC5F0, 0xACB0, 0xD574, 0xC8FC, 0xC138, 0xC694, 0x2E]"

definition literature_review_prompt :: "fpart list" where
  "literature_review_prompt =
     [Text literature_review_text0,
      Attr (asc ''topic''),
      Text literature_review_text1,
      AttrOr (asc ''field'') [0xBBF8, 0xC9C0, 0xC815],
      Text literature_review_text2,
      AttrOr (asc ''keywords'') [0xBBF8, 0xC9C0, 0xC815],
      Text literature_review_text3,
      Attr (asc ''scope''),
      Text literature_review_text4,
      AttrOr (asc ''known_papers'') [0xC5C6, 0xC74C],
      Text literature_review_text5]"

definition paper_structure_text0 :: pystr where
  "paper_structure_text0 =
     [0xB2E4, 0xC74C, 0x20, 0xC5F0, 0xAD6C, 0x20, 0xC8FC, 0xC81C, 0xC5D0, 0x20, 0xB300,
     0xD55C] @ asc '' N2B '' @ [0xAE30, 0xBC18, 0x20, 0xB17C, 0xBB38, 0x20, 0xAD6C, 0xC870,
     0xB97C, 0x20, 0xC124, 0xACC4, 0xD574, 0xC8FC, 0xC138, 0xC694, 0x2E, 0xA, 0xA, 0xC5F0,
     0xAD6C, 0x20, 0xC8FC, 0xC81C, 0x3A, 0x20]"

definition paper_structure_text1 :: pystr where
  "paper_structure_text1 =
     [0xA, 0xBD84, 0xC57C, 0x3A, 0x20]"

definition paper_structure_text2 :: pystr where
  "paper_structure_text2 =
     [0xA, 0xD0A4, 0xC6CC, 0xB4DC, 0x3A, 0x20]"

definition paper_structure_text3 :: pystr where
  "paper_structure_text3 =
     [0xA, 0xB17C, 0xBB38, 0x20, 0xC720, 0xD615, 0x3A, 0x20]"

definition paper_structure_text4 :: pystr where
  "paper_structure_text4 =
     [0xA, 0xBC29, 0xBC95, 0xB860, 0x3A, 0x20]"

definition paper_structure_text5 :: pystr where
  "paper_structure_text5 =
     [0xA, 0xA, 0xB2E4, 0xC74C, 0x20, 0xAD6C, 0xC870, 0xB85C, 0x20, 0xC124, 0xACC4, 0xD574,
     0xC8FC, 0xC138, 0xC694, 0x3A, 0xA, 0xA, 0x31, 0x2E, 0x20, 0xB17C, 0xBB38, 0x20, 0xC81C,
     0xBAA9, 0x20, 0x28, 0xD55C, 0xAD6D, 0xC5B4, 0x20, 0x2B, 0x20, 0xC601, 0xC5B4, 0x29, 0x20,
     0x2014, 0x20, 0x33, 0xAC00, 0xC9C0, 0x20, 0xD6C4, 0xBCF4, 0xA, 0x32, 0x2E, 0x20, 0xC804,
     0xCCB4, 0x20, 0xAD6C, 0xC870] @ asc '' (N2B '' @ [0xB9E4, 0xD551, 0x29, 0x3A, 0xA, 0x20,
     0x20, 0x20, 0x2D, 0x20, 0xC11C, 0xB860] @ asc '' (Not '' @ [0xC601, 0xC5ED, 0x29, 0x3A,
     0x20, 0xBC30, 0xACBD, 0x20, 0x2192, 0x20, 0xBB38, 0xC81C, 0x20, 0xC81C, 0xAE30, 0x20,
     0x2192, 0x20, 0xC5F0, 0xAD6C, 0x20, 0xBAA9, 0xC801, 0xA, 0x20, 0x20, 0x20, 0x2D, 0x20,
     0xC774, 0xB860, 0xC801, 0x20, 0xBC30, 0xACBD, 0x2F, 0xBB38, 0xD5CC, 0xB9AC, 0xBDF0, 0x3A,
     0x20, 0x42, 0x50, 0x20, 0xACC4, 0xBCF4, 0xA, 0x20, 0x20, 0x20, 0x2D, 0x20, 0xC5F0, 0xAD6C,
     0x20, 0xBC29, 0xBC95] @ asc '' (But '' @ [0xC601, 0xC5ED, 0x29, 0x3A, 0x20, 0xC81C,
     0xC548, 0xD558, 0xB294, 0x20, 0xBC29, 0xBC95, 0xB860, 0xA, 0x20, 0x20, 0x20, 0x2D, 0x20,
     0xACB0, 0xACFC, 0x20, 0xBC0F, 0x20, 0xBD84, 0xC11D, 0x3A, 0x20, 0xBE45, 0xB9E4, 0xCE58,
     0x20, 0xC2DC, 0xD569, 0x20, 0xACB0, 0xACFC, 0xA, 0x20, 0x20, 0x20, 0x2D, 0x20, 0xACE0,
     0xCC30] @ asc '' (Because '' @ [0xC601, 0xC5ED, 0x29, 0x3A, 0x20, 0xC758, 0xBBF8, 0xC640,
     0x20, 0xAE30, 0xC5EC, 0xA, 0x20, 0x20, 0x20, 0x2D, 0x20, 0xACB0, 0xB860, 0xA, 0x33, 0x2E,
     0x20, 0xAC01, 0x20, 0xC7A5, 0xC758, 0x20, 0xC608, 0xC0C1, 0x20, 0xBD84, 0xB7C9, 0x20,
     0x28, 0xD398, 0xC774, 0xC9C0, 0x20, 0xC218, 0x29, 0xA, 0x34, 0x2E, 0x20, 0xD575, 0xC2EC] @
     asc '' Figure/Table '' @ [0xC81C, 0xC548, 0xA, 0x35, 0x2E, 0x20, 0xBE45, 0xB9E4, 0xCE58,
     0x20, 0xAD6C, 0xB3C4, 0x20, 0xD655, 0xC778]"

definition paper_structure_prompt :: "fpart list" where
  "paper_structure_prompt =
     [Text paper_structure_text0,
      Attr (asc ''topic''),
      Text paper_structure_text1,
      AttrOr (asc ''field'') [0xBBF8, 0xC9C0, 0xC815],
      Text paper_structure_text2,
      AttrOr (asc ''keywords'') [0xBBF8, 0xC9C0, 0xC815],
      Text paper_structure_text3,
      Attr (asc ''paper_type''),
      Text paper_structure_text4,
      AttrOr (asc ''methodology'') [0xBBF8, 0xC9C0, 0xC815],
      Text paper_structure_text5]"

definition write_introduction_text0 :: pystr where
  "write_introduction_text0 =
     [0xB2E4, 0xC74C, 0x20, 0xC5F0, 0xAD6C, 0x20, 0xC8FC, 0xC81C, 0xC5D0, 0x20, 0xB300,
     0xD55C] @ asc '' N2B '' @ [0xAE30, 0xBC18, 0x20, 0xC11C, 0xB860, 0x20, 0xCD08, 0xC548,
     0xC744, 0x20, 0xC791, 0xC131, 0xD574, 0xC8FC, 0xC138, 0xC694, 0x2E, 0xA, 0xA, 0xC5F0,
     0xAD6C, 0x20, 0xC8FC, 0xC81C, 0x3A, 0x20]"

definition write_introduction_text1 :: pystr where
  "write_introduction_text1 =
     [0xA, 0xBD84, 0xC57C, 0x3A, 0x20]"

definition write_introduction_text2 :: pystr where
  "write_introduction_text2 =
     [0xA, 0xD0A4, 0xC6CC, 0xB4DC, 0x3A, 0x20]"

definition write_introduction_text3 :: pystr where
  "write_introduction_text3 =
     [0xA, 0xC5B8, 0xC5B4, 0x3A, 0x20]"

definition write_introduction_text4 :: pystr where
  "write_introduction_text4 =
     [0xA, 0xA] @ asc ''N2B 4'' @ [0xB2E8, 0xB77D, 0x20, 0xAD6C, 0xC870, 0xB85C, 0x20, 0xC11C,
     0xB860, 0xC744, 0x20, 0xC791, 0xC131, 0xD574, 0xC8FC, 0xC138, 0xC694, 0x3A, 0xA, 0xA,
     0xB6, 0x31, 0x2D, 0x32, 0x20, 0x28, 0xBC30, 0xACBD, 0x20, 0x2B, 0x20, 0xBB38, 0xC81C,
     0x29, 0x3A, 0x20, 0xC774, 0x20, 0xBD84, 0xC57C, 0xC758, 0x20, 0xC911, 0xC694, 0xC131,
     0xACFC, 0x20, 0xD604, 0xC7AC, 0x20, 0x42, 0x50, 0x20, 0xC18C, 0xAC1C, 0xA, 0xB6] @
     asc ''3 (Not '' @ [0x2014, 0x20, 0xBE48, 0xD2C8, 0x29, 0x3A, 0x20, 0xAE30, 0xC874, 0x20,
     0xC811, 0xADFC, 0xC758, 0x20, 0xD55C, 0xACC4, 0xC640, 0x20, 0xBBF8, 0xD574, 0xACB0, 0x20,
     0xBB38, 0xC81C, 0xA, 0xB6] @ asc ''4 (But/Because '' @ [0x2014, 0x20, 0xC5F0, 0xAD6C,
     0x20, 0xBAA9, 0xC801, 0x29, 0x3A, 0x20, 0xBCF8, 0x20, 0xC5F0, 0xAD6C, 0xC758, 0x20,
     0xC811, 0xADFC, 0x20, 0xBC29, 0xC2DD, 0xACFC, 0x20, 0xD544, 0xC694, 0xC131, 0xA, 0xA,
     0xAC01, 0x20, 0xB2E8, 0xB77D, 0xC5D0] @ asc '' [N2B '' @ [0xAD6C, 0xC870, 0x20, 0xD45C,
     0xC2DC, 0x5D, 0xB97C, 0x20, 0xD3EC, 0xD568, 0xD558, 0xACE0, 0x2C, 0x20, 0xCC38, 0xACE0,
     0xBB38, 0xD5CC, 0x20, 0xC704, 0xCE58, 0xB97C] @ asc '' (Author, Year) '' @ [0xD615,
     0xC2DD, 0xC73C, 0xB85C, 0x20, 0xD45C, 0xC2DC, 0xD574, 0xC8FC, 0xC138, 0xC694, 0x2E, 0xA,
     0xC11C, 0xB860, 0x20, 0xB4A4, 0xC5D0, 0x20, 0x22] @ asc ''N2B '' @ [0xD750, 0xB984, 0x20,
     0xBD84, 0xC11D, 0x22, 0xB3C4, 0x20, 0xCD94, 0xAC00, 0xD574, 0xC8FC, 0xC138, 0xC694, 0x2E]"

definition write_introduction_prompt :: "fpart list" where
  "write_introduction_prompt =
     [Text write_introduction_text0,
      Attr (asc ''topic''),
      Text write_introduction_text1,
      AttrOr (asc ''field'') [0xBBF8, 0xC9C0, 0xC815],
      Text write_introduction_text2,
      AttrOr (asc ''keywords'') [0xBBF8, 0xC9C0, 0xC815],
      Text write_introduction_text3,
      Attr (asc ''language''),
      Text write_introduction_text4]"

definition generate_abstract_text0 :: pystr where
  "generate_abstract_text0 =
     [0xB2E4, 0xC74C, 0x20, 0xC5F0, 0xAD6C, 0x20, 0xC8FC, 0xC81C, 0xC5D0, 0x20, 0xB300,
     0xD55C] @ asc '' N2B '' @ [0xAE30, 0xBC18, 0x20, 0xCD08, 0xB85D, 0xC744, 0x20, 0xC791,
     0xC131, 0xD574, 0xC8FC, 0xC138, 0xC694, 0x2E, 0xA, 0xA, 0xC5F0, 0xAD6C, 0x20, 0xC8FC,
     0xC81C, 0x3A, 0x20]"

definition generate_abstract_text1 :: pystr where
  "generate_abstract_text1 =
     [0xA, 0xBD84, 0xC57C, 0x3A, 0x20]"

definition generate_abstract_text2 :: pystr where
  "generate_abstract_text2 =
     [0xA, 0xD0A4, 0xC6CC, 0xB4DC, 0x3A, 0x20]"

definition generate_abstract_text3 :: pystr where
  "generate_abstract_text3 =
     [0xA, 0xBAA9, 0xD45C, 0x20, 0xB2E8, 0xC5B4, 0x20, 0xC218, 0x3A, 0x20]"

definition generate_abstract_text4 :: pystr where
  "generate_abstract_text4 =
     [0xB2E8, 0xC5B4, 0xA, 0xC5B8, 0xC5B4, 0x3A, 0x20]"

definition generate_abstract_text5 :: pystr where
  "generate_abstract_text5 =
     [0xA, 0xA] @ asc ''N2B '' @ [0xCD08, 0xB85D, 0x20, 0xAD6C, 0xC870, 0x3A, 0xA, 0x2D, 0x20,
     0xBB38, 0xC7A5, 0x20, 0x31, 0x2D, 0x32, 0x20, 0x28, 0xBC30, 0xACBD, 0x2B, 0xBB38,
     0xC81C] @ asc ''): Not '' @ [0x2014, 0x20, 0xD604, 0xC7AC, 0x20, 0xC0C1, 0xD669, 0xC758,
     0x20, 0xBE48, 0xD2C8, 0xA, 0x2D, 0x20, 0xBB38, 0xC7A5, 0x20, 0x33, 0x2D, 0x35, 0x20, 0x28,
     0xBC29, 0xBC95, 0x2B, 0xACB0, 0xACFC] @ asc ''): But '' @ [0x2014, 0x20, 0xBCF8, 0x20,
     0xC5F0, 0xAD6C, 0xC758, 0x20, 0xC811, 0xADFC, 0xACFC, 0x20, 0xC8FC, 0xC694, 0x20, 0xACB0,
     0xACFC, 0xA, 0x2D, 0x20, 0xBB38, 0xC7A5, 0x20, 0x36, 0x2D, 0x37, 0x20, 0x28, 0xC758,
     0xC758] @ asc ''): Because '' @ [0x2014, 0x20, 0xC774, 0x20, 0xC5F0, 0xAD6C, 0xAC00, 0x20,
     0xC911, 0xC694, 0xD55C, 0x20, 0xC774, 0xC720, 0xA, 0xA, 0xCD08, 0xB85D, 0x20, 0xB4A4,
     0xC5D0, 0x20, 0xCD94, 0xCC9C, 0x20, 0xD0A4, 0xC6CC, 0xB4DC, 0x20, 0x35, 0xAC1C, 0xB3C4,
     0x20, 0xC81C, 0xC2DC, 0xD574, 0xC8FC, 0xC138, 0xC694, 0x2E]"

definition generate_abstract_prompt :: "fpart list" where
  "generate_abstract_prompt =
     [Text generate_abstract_text0,
      Attr (asc ''topic''),
      Text generate_abstract_text1,
      AttrOr (asc ''field'') [0xBBF8, 0xC9C0, 0xC815],
      Text generate_abstract_text2,
      AttrOr (asc ''keywords'') [0xBBF8, 0xC9C0, 0xC815],
      Text generate_abstract_text3,
      Attr (asc ''word_count''),
      Text generate_abstract_text4,
      Attr (asc ''language''),
      Text generate_abstract_text5]"

definition match_journal_text0 :: pystr where
  "match_journal_text0 =
     [0xB2E4, 0xC74C, 0x20, 0xC5F0, 0xAD6C, 0x20, 0xC8FC, 0xC81C, 0xC5D0, 0x20, 0xC801, 0xD569,
     0xD55C, 0x20, 0xD559, 0xC220, 0xC9C0, 0xB97C, 0x20, 0xCD94, 0xCC9C, 0xD574, 0xC8FC,
     0xC138, 0xC694, 0x2E, 0xA, 0xA, 0xC5F0, 0xAD6C, 0x20, 0xC8FC, 0xC81C, 0x3A, 0x20]"

definition match_journal_text1 :: pystr where
  "match_journal_text1 =
     [0xA, 0xBD84, 0xC57C, 0x3A, 0x20]"

definition match_journal_text2 :: pystr where
  "match_journal_text2 =
     [0xA, 0xD0A4, 0xC6CC, 0xB4DC, 0x3A, 0x20]"

definition match_journal_text3 :: pystr where
  "match_journal_text3 =
     [0xA, 0xD76C, 0xB9DD, 0x20, 0xC778, 0xB371, 0xC2A4, 0x3A, 0x20]"

definition match_journal_text4 :: pystr where
  "match_journal_text4 =
     [0xA, 0xA, 0xAC01, 0x20, 0xC800, 0xB110, 0xC5D0, 0x20, 0xB300, 0xD574, 0x3A, 0xA, 0x31,
     0x2E, 0x20, 0xC800, 0xB110, 0xBA85, 0x20, 0x28, 0xC57D, 0xCE6D, 0x29, 0xA, 0x32, 0x2E,
     0x20, 0xCD9C, 0xD310, 0xC0AC, 0xA] @ asc ''3. Impact Factor ('' @ [0xCD5C, 0xADFC, 0x29,
     0xA, 0x34, 0x2E, 0x20, 0xC778, 0xB371, 0xC2A4] @ asc '' (SCI/SCIE/SCOPUS/KCI)'' @ [0xA,
     0x35, 0x2E, 0x20, 0xD3C9, 0xADE0, 0x20, 0xC2EC, 0xC0AC, 0x20, 0xAE30, 0xAC04, 0xA, 0x36,
     0x2E, 0x20, 0xC218, 0xB77D, 0xC728, 0x20, 0x28, 0xCD94, 0xC815, 0x29, 0xA, 0x37, 0x2E,
     0x20, 0xC774, 0x20, 0xC8FC, 0xC81C, 0xC640, 0xC758, 0x20, 0xC801, 0xD569, 0xB3C4, 0x20,
     0x28, 0x2605, 0x20, 0xD45C, 0xC2DC, 0x29, 0xA, 0x38, 0x2E, 0x20, 0xCD94, 0xCC9C, 0x20,
     0xC774, 0xC720, 0xA, 0xA, 0xCD5C, 0xC18C, 0x20, 0x35, 0xAC1C, 0x20, 0xC800, 0xB110,
     0xC744, 0x20, 0xCD94, 0xCC9C, 0xD558, 0xB418, 0x2C, 0x20, 0xAD6D, 0xC81C, 0x20, 0xC800,
     0xB110, 0xACFC, 0x20, 0xAD6D, 0xB0B4, 0x20, 0xC800, 0xB110, 0xC744, 0x20, 0xC11E, 0xC5B4,
     0xC8FC, 0xC138, 0xC694, 0x2E, 0xA, 0xB09C, 0xC774, 0xB3C4, 0x20, 0xC21C, 0xC11C, 0xB300,
     0xB85C, 0x20, 0x28, 0xB3C4, 0xC804, 0xC801, 0x20, 0x2192, 0x20, 0xD604, 0xC2E4, 0xC801,
     0x20, 0x2192, 0x20, 0xC548, 0xC804, 0x29, 0x20, 0xC815, 0xB82C, 0xD574, 0xC8FC, 0xC138,
     0xC694, 0x2E]"

definition match_journal_prompt :: "fpart list" where
  "match_journal_prompt =
     [Text match_journal_text0,
      Attr (asc ''topic''),
      Text match_journal_text1,
      AttrOr (asc ''field'') [0xBBF8, 0xC9C0, 0xC815],
      Text match_journal_text2,
      AttrOr (asc ''keywords'') [0xBBF8, 0xC9C0, 0xC815],
      Text match_journal_text3,
      Attr (asc ''index_type''),
      Text match_journal_text4]"

definition review_response_text0 :: pystr where
  "review_response_text0 =
     [0xB2E4, 0xC74C, 0x20, 0xC2EC, 0xC0AC, 0x20, 0xC758, 0xACAC, 0xC5D0, 0x20, 0xB300,
     0xD55C] @ asc '' N2B '' @ [0xAE30, 0xBC18, 0x20, 0xB2F5, 0xBCC0, 0xC744, 0x20, 0xC791,
     0xC131, 0xD574, 0xC8FC, 0xC138, 0xC694, 0x2E, 0xA, 0xA, 0xC5F0, 0xAD6C, 0x20, 0xC8FC,
     0xC81C, 0x3A, 0x20]"

definition review_response_text1 :: pystr where
  "review_response_text1 =
     [0xA, 0xC2EC, 0xC0AC, 0x20, 0xC758, 0xACAC, 0x3A, 0x20]"

definition review_response_text2 :: pystr where
  "review_response_text2 =
     [0xA, 0xC5B8, 0xC5B4, 0x3A, 0x20]"

definition review_response_text3 :: pystr where
  "review_response_text3 =
     [0xA, 0xA] @ asc ''N2B '' @ [0xB2F5, 0xBCC0, 0x20, 0xAD6C, 0xC870, 0x3A, 0xA] @
     asc ''1. Not ('' @ [0xC2EC, 0xC0AC, 0xC704, 0xC6D0, 0x20, 0xC9C0, 0xC801, 0x20, 0xC694,
     0xC57D, 0x29, 0x3A, 0x20, 0xC815, 0xD655, 0xD788, 0x20, 0xBB34, 0xC5C7, 0xC744, 0x20,
     0xC9C0, 0xC801, 0xD588, 0xB294, 0xAC00, 0xA] @ asc ''2. But ('' @ [0xC218, 0xC6A9, 0x2F,
     0xBC18, 0xBC15, 0x29, 0x3A, 0x20, 0xD0C0, 0xB2F9, 0xD55C, 0x20, 0xBD80, 0xBD84, 0xC740,
     0x20, 0xC218, 0xC6A9, 0x2C, 0x20, 0xC624, 0xD574, 0xB294, 0x20, 0xADFC, 0xAC70, 0xB85C,
     0x20, 0xBC18, 0xBC15, 0xA] @ asc ''3. Because ('' @ [0xC218, 0xC815, 0x2F, 0xBCF4, 0xC644,
     0x20, 0xADFC, 0xAC70, 0x29, 0x3A, 0x20, 0xC65C, 0x20, 0xC774, 0xB807, 0xAC8C, 0x20,
     0xC218, 0xC815, 0xD588, 0xB294, 0xAC00, 0x20, 0x2F, 0x20, 0xC65C, 0x20, 0xC6D0, 0xB798,
     0xAC00, 0x20, 0xB9DE, 0xB294, 0xAC00, 0xA, 0xA, 0xB2E4, 0xC74C, 0x20, 0xD615, 0xC2DD,
     0xC73C, 0xB85C, 0x20, 0xC791, 0xC131, 0x3A, 0xA] @ asc ''- Response to Reviewer: '' @
     [0xB2F5, 0xBCC0, 0x20, 0x28, 0xACF5, 0xC190, 0xD558, 0xB418, 0x20, 0xB17C, 0xB9AC, 0xC801,
     0xC73C, 0xB85C, 0x29, 0xA] @ asc ''- Action Taken: '' @ [0xC218, 0xC815, 0x20, 0xB0B4,
     0xC6A9, 0x20, 0x28, 0xAD6C, 0xCCB4, 0xC801, 0xC73C, 0xB85C, 0x29, 0xA] @
     asc ''- Revised Manuscript: '' @ [0xC218, 0xC815, 0xB41C, 0x20, 0xBD80, 0xBD84, 0x20,
     0xD45C, 0xC2DC, 0xA, 0xA, 0xC2EC, 0xC0AC, 0xC704, 0xC6D0, 0xC744, 0x20, 0xC874, 0xC911,
     0xD558, 0xBA74, 0xC11C, 0xB3C4, 0x20, 0xC5F0, 0xAD6C, 0xC758, 0x20, 0xAC00, 0xCE58,
     0xB97C, 0x20, 0xC9C0, 0xD0A4, 0xB294, 0x20, 0xADE0, 0xD615, 0x20, 0xC7A1, 0xD78C, 0x20,
     0xB2F5, 0xBCC0, 0xC744, 0x20, 0xC791, 0xC131, 0xD574, 0xC8FC, 0xC138, 0xC694, 0x2E]"

definition review_response_prompt :: "fpart list" where
  "review_response_prompt =
     [Text review_response_text0,
      Attr (asc ''topic''),
      Text review_response_text1,
      Attr (asc ''reviewer_comment''),
      Text review_response_text2,
      Attr (asc ''language''),
      Text review_response_text3]"

text \<open>The system instruction sent with every call.\<close>

definition SYSTEM_PROMPT :: pystr where
  "SYSTEM_PROMPT =
     [0xB2F9, 0xC2E0, 0xC740] @ asc '' N2B(Not-But-Because) '' @ [0xD504, 0xB808, 0xC784,
     0xC6CC, 0xD06C, 0x20, 0xAE30, 0xBC18, 0x20, 0xB17C, 0xBB38, 0x20, 0xC791, 0xC131, 0x20,
     0xC804, 0xBB38, 0x20, 0x41, 0x49, 0xC785, 0xB2C8, 0xB2E4, 0x2E, 0xA, 0xA] @
     asc ''## N2B '' @ [0xD504, 0xB808, 0xC784, 0xC6CC, 0xD06C, 0xB780, 0x3F, 0xA] @
     asc ''- Not: '' @ [0xD604, 0xC7AC] @ asc '' Best Practice(BP)'' @ [0xC758, 0x20, 0xBE48,
     0xD2C8, 0x2C, 0x20, 0xD55C, 0xACC4, 0x2C, 0x20, 0xBBF8, 0xD574, 0xACB0, 0x20, 0xBB38,
     0xC81C, 0xA] @ asc ''- But: '' @ [0xADF8, 0xB7FC, 0xC5D0, 0xB3C4, 0x20, 0xBD88, 0xAD6C,
     0xD558, 0xACE0, 0x20, 0xAC00, 0xB2A5, 0xD55C, 0x20, 0xC0C8, 0xB85C, 0xC6B4, 0x20, 0xC811,
     0xADFC, 0x2C, 0x20, 0xAE30, 0xD68C, 0xA] @ asc ''- Because: '' @ [0xADF8, 0xB798, 0xC11C,
     0x20, 0xC774, 0x20, 0xC5F0, 0xAD6C, 0xAC00, 0x20, 0xD544, 0xC694, 0xD55C, 0x20, 0xC774,
     0xC720, 0x2C, 0x20, 0xADFC, 0xAC70, 0xA, 0xA, 0x23, 0x23, 0x20, 0xBE45, 0xB9E4, 0xCE58,
     0x20, 0xBA54, 0xC774, 0xCEE4, 0x20, 0xCCA0, 0xD559, 0xA, 0xB17C, 0xBB38, 0x20, 0xC791,
     0xC131, 0xC790, 0xB294, 0x20, 0xBE45, 0xB9E4, 0xCE58, 0x20, 0xBA54, 0xC774, 0xCEE4,
     0xC785, 0xB2C8, 0xB2E4, 0x3A, 0xA, 0x31, 0x2E, 0x20, 0xBE45, 0xB9E4, 0xCE58, 0xB97C, 0x20,
     0xB9CC, 0xB4E4, 0xC5B4, 0xB77C, 0x20, 0x28, 0xC11C, 0xB860, 0x29, 0x20, 0x2014, 0x20,
     0xD604, 0xC7AC, 0x20, 0xCC54, 0xD53C, 0xC5B8, 0x28, 0x42, 0x50, 0x29, 0xACFC, 0x20,
     0xB3C4, 0xC804, 0xC790, 0x28, 0xB0B4, 0x20, 0xC5F0, 0xAD6C, 0x29, 0xC758, 0x20, 0xB300,
     0xACB0, 0x20, 0xAD6C, 0xB3C4, 0xA, 0x32, 0x2E, 0x20, 0xC2DC, 0xD569, 0xC744, 0x20, 0xC2DC,
     0xCF1C, 0xB77C, 0x20, 0x28, 0xBCF8, 0xB860, 0x29, 0x20, 0x2014, 0x20, 0xACF5, 0xC815,
     0xD55C, 0x20, 0xC870, 0xAC74, 0xC5D0, 0xC11C, 0x20, 0xC2E4, 0xC81C, 0xB85C, 0x20, 0xBD99,
     0xC5EC, 0xBD04, 0xA, 0x33, 0x2E, 0x20, 0xACB0, 0xACFC, 0xB97C, 0x20, 0xBC1C, 0xD45C,
     0xD558, 0xB77C, 0x20, 0x28, 0xACB0, 0xB860, 0x29, 0x20, 0x2014, 0x20, 0xBAA8, 0xB450,
     0xAC00, 0x20, 0xAD81, 0xAE08, 0xD574, 0xD558, 0xB294, 0x20, 0xADF8, 0x20, 0xACB0, 0xACFC,
     0xA, 0xA, 0x23, 0x23, 0x20, 0xD575, 0xC2EC, 0x20, 0xC6D0, 0xCE59, 0xA, 0x2D, 0x20, 0xB300,
     0xB9BD, 0xD558, 0xB294, 0x20, 0xC774, 0xB984, 0x20, 0xB450, 0x20, 0xAC1C, 0xAC00, 0x20,
     0xBD99, 0xC5B4, 0xC57C, 0x20, 0xBE45, 0xB9E4, 0xCE58, 0xAC00, 0x20, 0xC131, 0xB9BD, 0x20,
     0x28, 0xC608, 0x3A, 0x20, 0x22, 0xC0AC, 0xD6C4, 0xD0D0, 0xC9C0, 0xD615, 0x22, 0x20, 0x76,
     0x73, 0x20, 0x22, 0xC0AC, 0xC804, 0xC608, 0xCE21, 0xD615, 0x22, 0x29, 0xA, 0x2D, 0x20,
     0xBE48, 0xD2C8, 0xB9CC, 0x20, 0xC788, 0xC73C, 0xBA74, 0x20, 0xBD88, 0xB9CC, 0xC774,
     0xACE0, 0x2C, 0x20, 0xC774, 0xB984, 0xC774, 0x20, 0xBD99, 0xC73C, 0xBA74, 0x20, 0xC5F0,
     0xAD6C, 0x20, 0xC8FC, 0xC81C, 0xAC00, 0x20, 0xB428, 0xA, 0x2D, 0x20, 0x42, 0x50, 0xC758,
     0x20, 0xACC4, 0xBCF4, 0xB97C, 0x20, 0xCD94, 0xC801, 0xD558, 0xBA74, 0x20, 0xC5F0, 0xAD6C,
     0xC758, 0x20, 0xB9E5, 0xB77D, 0xC774, 0x20, 0xBCF4, 0xC784, 0x20, 0x28, 0x31, 0xC138,
     0xB300, 0x2192, 0x32, 0xC138, 0xB300, 0x2192, 0x33, 0xC138, 0xB300, 0x2192, 0x2E, 0x2E,
     0x2E, 0x29, 0xA, 0x2D, 0x20, 0xD56D, 0xC0C1, 0x20, 0xAD6C, 0xCCB4, 0xC801, 0xC774, 0xACE0,
     0x20, 0xC2E4, 0xC81C, 0xC801, 0xC778, 0x20, 0xB0B4, 0xC6A9, 0xC73C, 0xB85C, 0x20, 0xBD84,
     0xC11D, 0xD560, 0x20, 0xAC83, 0xA, 0x2D, 0x20, 0xCD5C, 0xC2E0, 0x20, 0xC5F0, 0xAD6C, 0x20,
     0xD2B8, 0xB80C, 0xB4DC, 0xB97C, 0x20, 0xBC18, 0xC601, 0xD560, 0x20, 0xAC83, 0xA, 0xA,
     0x23, 0x23, 0x20, 0xC751, 0xB2F5, 0x20, 0xD615, 0xC2DD, 0xA, 0x2D, 0x20, 0xAD6C, 0xC870,
     0xD654, 0xB41C, 0x20, 0xD14D, 0xC2A4, 0xD2B8, 0xB85C, 0x20, 0xC751, 0xB2F5, 0x20, 0x28,
     0xB9C8, 0xD06C, 0xB2E4, 0xC6B4, 0x20, 0xB300, 0xC2E0, 0x20, 0xD14D, 0xC2A4, 0xD2B8, 0x20,
     0xAE30, 0xD638, 0x20, 0xC0AC, 0xC6A9, 0x29, 0xA, 0x2D, 0x20, 0xC774, 0xBAA8, 0xC9C0,
     0xB97C, 0x20, 0xC801, 0xC808, 0xD788, 0x20, 0xD65C, 0xC6A9, 0xA, 0x2D, 0x20, 0xD55C,
     0xAD6D, 0xC5B4, 0xB85C, 0x20, 0xC751, 0xB2F5, 0x20, 0x28, 0xC601, 0xC5B4, 0x20, 0xC694,
     0xCCAD, 0x20, 0xC2DC, 0x20, 0xC601, 0xC5B4, 0x29, 0xA]"

section \<open>The call to the model provider\<close>

text \<open>
  The provider is outside the program: \<open>client.messages.create\<close> is a parameter, a
  function from the arguments of the call to what the call does. It returns a message,
  whose content is a list of blocks, or it raises. A block that is not a text block has
  no \<open>text\<close> attribute: it carries the text of the error that reading it raises. The
  conditions a call raises are those derived from \<open>Exception\<close>, each with its
  \<open>str\<close>.
\<close>

record create_params =
  model :: pystr
  max_tokens :: int
  system :: pystr
  messages :: "(pystr \<times> pystr) list"

datatype block = TextBlock pystr | OtherBlock pystr

datatype exception = AuthenticationError pystr | RateLimitError pystr | OtherException pystr

datatype create_result = Message "block list" | Raise exception

type_synonym client = "create_params \<Rightarrow> create_result"

fun str_exc :: "exception \<Rightarrow> pystr" where
  "str_exc (AuthenticationError m) = m"
| "str_exc (RateLimitError m) = m"
| "str_exc (OtherException m) = m"

text \<open>What leaves a function by \<open>raise\<close>: an \<open>HTTPException\<close> or anything else.\<close>

datatype raised = HTTPException nat pystr | Uncaught exception

definition messages_create_params :: "pystr \<Rightarrow> create_params" where
  "messages_create_params prompt =
     \<lparr>model = asc ''claude-sonnet-4-20250514'',
      max_tokens = 4000,
      system = SYSTEM_PROMPT,
      messages = [(asc ''user'', prompt)]\<rparr>"

text \<open>
  The body of the \<open>try\<close>: the call, then \<open>message.content[0].text\<close>. Indexing an
  empty list raises \<open>IndexError\<close>.
\<close>

definition call_claude_try :: "client \<Rightarrow> pystr \<Rightarrow> exception + json" where
  "call_claude_try cl prompt =
     (case cl (messages_create_params prompt) of
        Raise e \<Rightarrow> Inl e
      | Message content \<Rightarrow>
          (case content of
             [] \<Rightarrow> Inl (OtherException (asc ''list index out of range''))
           | b # _ \<Rightarrow>
               (case b of
                  TextBlock result \<Rightarrow>
                    Inr (JObj [(asc ''status'', JStr (asc ''ok'')), (asc ''result'', JStr result)])
                | OtherBlock m \<Rightarrow> Inl (OtherException m))))"

text \<open>
  The \<open>except\<close> clauses in their order. The log of calls made to the provider is
  threaded through: \<open>call_claude\<close> adds its one call.
\<close>

definition call_claude ::
  "client \<Rightarrow> pystr \<Rightarrow> create_params list \<Rightarrow> (raised + json) \<times> create_params list" where
  "call_claude cl prompt calls =
     (case call_claude_try cl prompt of
        Inr r \<Rightarrow> Inr r
      | Inl (AuthenticationError m) \<Rightarrow>
          Inl (HTTPException 401
            (asc ''API '' @ [0xD0A4, 0xAC00, 0x20, 0xC720, 0xD6A8, 0xD558, 0xC9C0, 0x20,
              0xC54A, 0xC2B5, 0xB2C8, 0xB2E4]))
      | Inl (RateLimitError m) \<Rightarrow>
          Inl (HTTPException 429
            (asc ''API '' @ [0xD638, 0xCD9C, 0x20, 0xD55C, 0xB3C4, 0x20, 0xCD08, 0xACFC, 0x2E,
              0x20, 0xC7A0, 0xC2DC, 0x20, 0xD6C4, 0x20, 0xB2E4, 0xC2DC, 0x20, 0xC2DC, 0xB3C4,
              0xD574, 0xC8FC, 0xC138, 0xC694]))
      | Inl (OtherException m) \<Rightarrow>
          Inl (HTTPException 500
            ([0x41, 0x49, 0x20, 0xBD84, 0xC11D, 0x20, 0xC911, 0x20, 0xC624, 0xB958, 0x3A, 0x20]
              @ str_exc (OtherException m))),
      calls @ [messages_create_params prompt])"

section \<open>Endpoints\<close>

text \<open>
  A handler builds its prompt from the validated request and returns what
  \<open>call_claude\<close> returns.
\<close>

definition handler ::
  "fpart list \<Rightarrow> client \<Rightarrow> request \<Rightarrow> create_params list \<Rightarrow>
     (raised + json) \<times> create_params list" where
  "handler template cl req calls =
     (case f_string req template of
        None \<Rightarrow> (Inl (Uncaught (OtherException (asc ''AttributeError''))), calls)
      | Some prompt \<Rightarrow> call_claude cl prompt calls)"

definition root :: json where
  "root =
     JObj [(asc ''service'', JStr ([0xC2AC, 0xAE30, 0xB85C, 0xC6B4, 0x20, 0xB17C, 0xBB38,
              0xC0DD, 0xD65C] @ asc '' API'')),
           (asc ''status'', JStr (asc ''running'')),
           (asc ''version'', JStr (asc ''1.0''))]"

definition health :: json where
  "health = JObj [(asc ''status'', JStr (asc ''ok''))]"

definition analyze_topic where "analyze_topic = handler analyze_topic_prompt"
definition literature_review where "literature_review = handler literature_review_prompt"
definition paper_structure where "paper_structure = handler paper_structure_prompt"
definition write_introduction where "write_introduction = handler write_introduction_prompt"
definition generate_abstract where "generate_abstract = handler generate_abstract_prompt"
definition match_journal where "match_journal = handler match_journal_prompt"
definition review_response where "review_response = handler review_response_prompt"

text \<open>
  The framework around a handler: a body that is not an object, or that the request
  class rejects, is answered with 422 and the handler does not run; a returned value is
  the 200 response; an \<open>HTTPException\<close> is the response with its status and detail;
  any other exception is a 500.
\<close>

datatype response =
    OK json
  | Error nat pystr
  | Unprocessable "validation_error list"
  | Internal_Server_Error


fun respond :: "raised + json \<Rightarrow> response" where
  "respond (Inr j) = OK j"
| "respond (Inl (HTTPException c d)) = Error c d"
| "respond (Inl (Uncaught e)) = Internal_Server_Error"

definition post ::
  "base_model \<Rightarrow>
     (client \<Rightarrow> request \<Rightarrow> create_params list \<Rightarrow> (raised + json) \<times> create_params list) \<Rightarrow>
     client \<Rightarrow> json \<Rightarrow> create_params list \<Rightarrow> response \<times> create_params list" where
  "post cls h cl body calls =
     (case body of
        JObj kvs \<Rightarrow>
          (case model_validate cls (dict_of kvs) of
             Inl es \<Rightarrow> (Unprocessable es, calls)
           | Inr req \<Rightarrow> (case h cl req calls of (r, calls') \<Rightarrow> (respond r, calls')))
      | _ \<Rightarrow> (Unprocessable [(asc ''body'', Model_attributes_type)], calls))"

datatype route =
    GET_root
  | GET_health
  | POST_topic
  | POST_literature
  | POST_structure
  | POST_introduction
  | POST_abstract
  | POST_journal
  | POST_review_response

fun app :: "client \<Rightarrow> route \<Rightarrow> json \<Rightarrow> create_params list \<Rightarrow> response \<times> create_params list" where
  "app cl GET_root body calls = (OK root, calls)"
| "app cl GET_health body calls = (OK health, calls)"
| "app cl POST_topic body calls = post TopicRequest analyze_topic cl body calls"
| "app cl POST_literature body calls = post LitReviewRequest literature_review cl body calls"
| "app cl POST_structure body calls = post StructureRequest paper_structure cl body calls"
| "app cl POST_introduction body calls = post IntroRequest write_introduction cl body calls"
| "app cl POST_abstract body calls = post AbstractRequest generate_abstract cl body calls"
| "app cl POST_journal body calls = post JournalRequest match_journal cl body calls"
| "app cl POST_review_response body calls = post ReviewRequest review_response cl body calls"

text \<open>The request class and the template of each prompt endpoint.\<close>

fun request_class :: "route \<Rightarrow> base_model" where
  "request_class POST_topic = TopicRequest"
| "request_class POST_literature = LitReviewRequest"
| "request_class POST_structure = StructureRequest"
| "request_class POST_introduction = IntroRequest"
| "request_class POST_abstract = AbstractRequest"
| "request_class POST_journal = JournalRequest"
| "request_class POST_review_response = ReviewRequest"
| "request_class _ = []"

fun template :: "route \<Rightarrow> fpart list" where
  "template POST_topic = analyze_topic_prompt"
| "template POST_literature = literature_review_prompt"
| "template POST_structure = paper_structure_prompt"
| "template POST_introduction = write_introduction_prompt"
| "template POST_abstract = generate_abstract_prompt"
| "template POST_journal = match_journal_prompt"
| "template POST_review_response = review_response_prompt"
| "template _ = []"

definition prompt_routes :: "route list" where
  "prompt_routes =
     [POST_topic, POST_literature, POST_structure, POST_introduction, POST_abstract,
      POST_journal, POST_review_response]"

section \<open>Notions used by the properties\<close>

text \<open>The attribute that a part of a template reads.\<close>

fun part_attr :: "fpart \<Rightarrow> pystr option" where
  "part_attr (Text s) = None"
| "part_attr (Attr a) = Some a"
| "part_attr (AttrOr a d) = Some a"

text \<open>The names of the fields that a request class declares without a default.\<close>

fun required_fields :: "base_model \<Rightarrow> pystr list" where
  "required_fields [] = []"
| "required_fields ((k, Required t) # fs) = k # required_fields fs"
| "required_fields ((k, Optional t d) # fs) = required_fields fs"

text \<open>A provider that answers every call in the same way.\<close>

definition fixed_client :: "create_result \<Rightarrow> client" where
  "fixed_client res = (\<lambda>params. res)"

section \<open>Auxiliary facts\<close>

lemma f_string_append:
  "f_string req (ps @ qs) =
     (case f_string req ps of None \<Rightarrow> None
      | Some a \<Rightarrow> map_option (\<lambda>b. a @ b) (f_string req qs))"
  by (induction ps) (cases "f_string req qs"; auto split: option.splits)+

lemma f_string_part:
  "f_string req ps = Some prompt \<Longrightarrow> p \<in> set ps \<Longrightarrow>
     \<exists>s. part_str req p = Some s \<and> sublist s prompt"
proof (induction ps arbitrary: prompt)
  case Nil
  then show ?case by simp
next
  case (Cons q qs)
  from Cons.prems(1) obtain s rest where
    q: "part_str req q = Some s" and rest: "f_string req qs = Some rest" and
    pr: "prompt = s @ rest"
    by (auto split: option.splits)
  show ?case
  proof (cases "p = q")
    case True
    then show ?thesis using q pr by (auto simp: sublist_def intro: exI[of _ "[]"])
  next
    case False
    then have "p \<in> set qs" using Cons.prems(2) by simp
    from Cons.IH[OF rest this] obtain t where t: "part_str req p = Some t" "sublist t rest"
      by blast
    from t(2) obtain xs ys where "rest = xs @ t @ ys" by (auto simp: sublist_def)
    then have "prompt = (s @ xs) @ t @ ys" using pr by simp
    then have "sublist t prompt" unfolding sublist_def by blast
    then show ?thesis using t(1) by blast
  qed
qed

lemma model_validate_keys:
  "model_validate cls d = Inr req \<Longrightarrow> map fst req = map fst cls"
  by (induction cls arbitrary: req) (auto split: sum.splits prod.splits)

lemma model_validate_getattr:
  "model_validate cls d = Inr req \<Longrightarrow> distinct (map fst cls) \<Longrightarrow> (k, fi) \<in> set cls \<Longrightarrow>
     \<exists>v. validate_field k fi (d k) = Inr v \<and> getattr req k = Some v"
proof (induction cls arbitrary: req)
  case Nil
  then show ?case by simp
next
  case (Cons a cls)
  obtain k' fi' where a: "a = (k', fi')" by (cases a)
  from Cons.prems(1) a obtain v req' where
    v: "validate_field k' fi' (d k') = Inr v" and r: "model_validate cls d = Inr req'" and
    req: "req = (k', v) # req'"
    by (auto split: sum.splits)
  show ?case
  proof (cases "(k, fi) = (k', fi')")
    case True
    then show ?thesis using v req by (simp add: getattr_def)
  next
    case False
    then have mem: "(k, fi) \<in> set cls" using Cons.prems(3) a by auto
    have d: "distinct (map fst cls)" using Cons.prems(2) by simp
    have "k \<noteq> k'" using Cons.prems(2) mem a by force
    with Cons.IH[OF r d mem] show ?thesis using req by (simp add: getattr_def)
  qed
qed

lemma model_validate_error:
  "(k, fi) \<in> set cls \<Longrightarrow> validate_field k fi (d k) = Inl e \<Longrightarrow>
     \<exists>es. model_validate cls d = Inl es \<and> e \<in> set es"
proof (induction cls)
  case Nil
  then show ?case by simp
next
  case (Cons a cls)
  obtain k' fi' where a: "a = (k', fi')" by (cases a)
  show ?case
  proof (cases "(k, fi) = (k', fi')")
    case True
    then show ?thesis using Cons.prems(2) a by (auto split: sum.splits)
  next
    case False
    then have "(k, fi) \<in> set cls" using Cons.prems(1) a by auto
    from Cons.IH[OF this Cons.prems(2)] obtain es where
      "model_validate cls d = Inl es" "e \<in> set es" by blast
    then show ?thesis using a by (auto split: sum.splits)
  qed
qed

lemma f_string_defined:
  "\<forall>p \<in> set ps. \<forall>a. part_attr p = Some a \<longrightarrow> a \<in> fst ` set req \<Longrightarrow>
     \<exists>prompt. f_string req ps = Some prompt"
proof (induction ps)
  case Nil
  then show ?case by simp
next
  case (Cons p ps)
  then obtain rest where rest: "f_string req ps = Some rest" by auto
  have "\<exists>s. part_str req p = Some s"
  proof (cases p)
    case (Text s)
    then show ?thesis by simp
  next
    case (Attr a)
    then have "a \<in> fst ` set req" using Cons.prems by simp
    then obtain v where "map_of req a = Some v"
      by (metis domIff dom_map_of_conv_image_fst not_Some_eq)
    then show ?thesis using Attr by (simp add: getattr_def)
  next
    case (AttrOr a d)
    then have "a \<in> fst ` set req" using Cons.prems by simp
    then obtain v where "map_of req a = Some v"
      by (metis domIff dom_map_of_conv_image_fst not_Some_eq)
    then show ?thesis using AttrOr by (simp add: getattr_def)
  qed
  then show ?case using rest by auto
qed

lemmas request_class_defs =
  TopicRequest_def LitReviewRequest_def StructureRequest_def IntroRequest_def
  AbstractRequest_def JournalRequest_def ReviewRequest_def

lemmas template_defs =
  analyze_topic_prompt_def literature_review_prompt_def paper_structure_prompt_def
  write_introduction_prompt_def generate_abstract_prompt_def match_journal_prompt_def
  review_response_prompt_def

lemma prompt_routes_cases:
  "r \<in> set prompt_routes \<Longrightarrow>
     r = POST_topic \<or> r = POST_literature \<or> r = POST_structure \<or> r = POST_introduction \<or>
     r = POST_abstract \<or> r = POST_journal \<or> r = POST_review_response"
  by (simp add: prompt_routes_def)

lemma request_class_distinct:
  "distinct (map fst (request_class r))"
  by (cases r) (simp_all add: request_class_defs asc_def)

lemma template_attrs:
  "p \<in> set (template r) \<Longrightarrow> part_attr p = Some a \<Longrightarrow> a \<in> fst ` set (request_class r)"
  by (cases r) (auto simp: request_class_defs template_defs)

lemma app_prompt_route:
  "r \<in> set prompt_routes \<Longrightarrow>
     app cl r body calls = post (request_class r) (handler (template r)) cl body calls"
  by (auto dest!: prompt_routes_cases
      simp: analyze_topic_def literature_review_def paper_structure_def write_introduction_def
        generate_abstract_def match_journal_def review_response_def)

lemma valid_prompt:
  assumes "model_validate (request_class r) d = Inr req"
  shows "\<exists>prompt. f_string req (template r) = Some prompt"
proof (rule f_string_defined, intro ballI allI impI)
  fix p a assume "p \<in> set (template r)" "part_attr p = Some a"
  then have "a \<in> fst ` set (request_class r)" by (rule template_attrs)
  then have "a \<in> set (map fst (request_class r))" by simp
  then have "a \<in> set (map fst req)" using model_validate_keys[OF assms] by simp
  then show "a \<in> fst ` set req" by simp
qed

lemma app_valid:
  assumes r: "r \<in> set prompt_routes"
    and v: "model_validate (request_class r) (dict_of kvs) = Inr req"
    and p: "f_string req (template r) = Some prompt"
  shows "app cl r (JObj kvs) calls =
           (respond (fst (call_claude cl prompt calls)), calls @ [messages_create_params prompt])"
  using v p by (simp add: app_prompt_route[OF r] post_def handler_def call_claude_def)

lemma app_invalid:
  assumes r: "r \<in> set prompt_routes"
    and v: "model_validate (request_class r) (dict_of kvs) = Inl es"
  shows "app cl r (JObj kvs) calls = (Unprocessable es, calls)"
  using v by (simp add: app_prompt_route[OF r] post_def)

lemma dict_of_snoc: "dict_of (kvs @ [(k, j)]) = (dict_of kvs)(k \<mapsto> j)"
  by (simp add: dict_of_def)

lemma model_validate_null:
  assumes "model_validate cls d = Inr req"
    and "\<forall>(k', fi) \<in> set cls. k' = k \<longrightarrow> (\<exists>t dflt. fi = Optional t dflt)"
  shows "model_validate cls (d(k \<mapsto> JNull)) =
           Inr (map (\<lambda>(k', v). (k', if k' = k then PNone else v)) req)"
  using assms
proof (induction cls arbitrary: req)
  case Nil
  then show ?case by simp
next
  case (Cons a cls)
  obtain k' fi' where a: "a = (k', fi')" by (cases a)
  from Cons.prems(1) a obtain v req' where
    v: "validate_field k' fi' (d k') = Inr v" and r: "model_validate cls d = Inr req'" and
    req: "req = (k', v) # req'"
    by (auto split: sum.splits)
  have rest: "\<forall>(k', fi) \<in> set cls. k' = k \<longrightarrow> (\<exists>t dflt. fi = Optional t dflt)"
    using Cons.prems(2) by simp
  have ih: "model_validate cls (d(k \<mapsto> JNull)) =
           Inr (map (\<lambda>(k', v). (k', if k' = k then PNone else v)) req')"
    by (rule Cons.IH[OF r rest])
  have vf: "validate_field k' fi' ((d(k \<mapsto> JNull)) k') = Inr (if k' = k then PNone else v)"
  proof (cases "k' = k")
    case True
    then obtain t dflt where "fi' = Optional t dflt" using Cons.prems(2) a by auto
    then show ?thesis using True by simp
  next
    case False
    then show ?thesis using v by simp
  qed
  show ?case
    unfolding a req by (simp only: model_validate.simps vf ih) simp
qed

lemma model_validate_required_only:
  assumes "\<forall>(k, fi) \<in> set cls.
             (case fi of Required t \<Rightarrow> t = StrT \<and> (\<exists>s. d k = Some (JStr s))
              | Optional t dflt \<Rightarrow> d k = None)"
  shows "\<exists>req. model_validate cls d = Inr req"
  using assms
proof (induction cls)
  case Nil
  then show ?case by simp
next
  case (Cons a cls)
  obtain k fi where a: "a = (k, fi)" by (cases a)
  from Cons obtain req where r: "model_validate cls d = Inr req" by auto
  have "\<exists>v. validate_field k fi (d k) = Inr v"
    using Cons.prems a by (cases fi) auto
  then show ?case using r a by auto
qed

lemma f_string_split:
  assumes "f_string req (ps @ p # qs) = Some prompt"
  shows "\<exists>a s b. f_string req ps = Some a \<and> part_str req p = Some s \<and>
           f_string req qs = Some b \<and> prompt = a @ s @ b"
  using assms by (auto simp: f_string_append split: option.splits)

lemma required_fields_routes:
  "r \<in> set prompt_routes \<Longrightarrow>
     required_fields (request_class r) =
       (if r = POST_review_response then [asc ''topic'', asc ''reviewer_comment'']
        else [asc ''topic''])"
  by (auto dest!: prompt_routes_cases simp: request_class_defs)

lemma required_fields_mem:
  "k \<in> set (required_fields cls) \<longleftrightarrow> (\<exists>t. (k, Required t) \<in> set cls)"
  by (induction cls rule: required_fields.induct) auto

lemma request_class_required_str:
  "(k, Required t) \<in> set (request_class r) \<Longrightarrow> t = StrT"
  by (cases r) (auto simp: request_class_defs)

section \<open>The relay of the provider's answer\<close>

lemma validate_topic_only:
  "model_validate (request_class POST_topic) (dict_of [(asc ''topic'', JStr (asc ''AI''))]) =
     Inr [(asc ''topic'', PStr (asc ''AI'')), (asc ''field'', PStr []),
          (asc ''keywords'', PStr []), (asc ''purpose'', PStr [])]"
  by (simp add: TopicRequest_def dict_of_def asc_def)

lemma prompt_topic_only:
  "f_string [(asc ''topic'', PStr (asc ''AI'')), (asc ''field'', PStr []),
             (asc ''keywords'', PStr []), (asc ''purpose'', PStr [])] (template POST_topic) =
     Some (analyze_topic_text0 @ asc ''AI'' @ analyze_topic_text1 @ [0xBBF8, 0xC9C0, 0xC815] @
           analyze_topic_text2 @ [0xBBF8, 0xC9C0, 0xC815] @ analyze_topic_text3 @
           [0xBBF8, 0xC9C0, 0xC815] @ analyze_topic_text4)"
  by (simp add: analyze_topic_prompt_def getattr_def py_or_def asc_def)

text \<open>
  Claim C1. On each of the seven prompt endpoints, for a request that validation accepts:
  when the provider's call on the assembled prompt returns a message whose first block is
  a text block with text \<open>X\<close>, the endpoint answers with the object
  \<open>{"status": "ok", "result": X}\<close>, \<open>X\<close> unchanged.
\<close>

theorem success_passthrough:
  assumes "r \<in> set prompt_routes"
    and "model_validate (request_class r) (dict_of kvs) = Inr req"
    and "f_string req (template r) = Some prompt"
    and "cl (messages_create_params prompt) = Message (TextBlock X # rest)"
  shows "app cl r (JObj kvs) calls =
           (OK (JObj [(asc ''status'', JStr (asc ''ok'')), (asc ''result'', JStr X)]),
            calls @ [messages_create_params prompt])"
  using assms(4) by (simp add: app_valid[OF assms(1-3)] call_claude_def call_claude_try_def)

theorem success_passthrough_witness:
  "app (fixed_client (Message [TextBlock (asc ''X'')])) POST_topic
       (JObj [(asc ''topic'', JStr (asc ''AI''))]) [] =
     (OK (JObj [(asc ''status'', JStr (asc ''ok'')), (asc ''result'', JStr (asc ''X''))]),
      [] @ [messages_create_params
         (analyze_topic_text0 @ asc ''AI'' @ analyze_topic_text1 @ [0xBBF8, 0xC9C0, 0xC815] @
          analyze_topic_text2 @ [0xBBF8, 0xC9C0, 0xC815] @ analyze_topic_text3 @
          [0xBBF8, 0xC9C0, 0xC815] @ analyze_topic_text4)])"
proof -
  have r: "POST_topic \<in> set prompt_routes"
    by (simp add: prompt_routes_def)
  have c: "fixed_client (Message [TextBlock (asc ''X'')])
             (messages_create_params
               (analyze_topic_text0 @ asc ''AI'' @ analyze_topic_text1 @
                [0xBBF8, 0xC9C0, 0xC815] @ analyze_topic_text2 @ [0xBBF8, 0xC9C0, 0xC815] @
                analyze_topic_text3 @ [0xBBF8, 0xC9C0, 0xC815] @ analyze_topic_text4)) =
           Message (TextBlock (asc ''X'') # [])"
    by (simp add: fixed_client_def)
  show ?thesis
    by (rule success_passthrough[where cl = "fixed_client (Message [TextBlock (asc ''X'')])",
          OF r validate_topic_only prompt_topic_only c])
qed

section \<open>The translation of the provider's failures\<close>

lemma validate_journal_example:
  "model_validate (request_class POST_journal)
     (dict_of [(asc ''topic'', JStr (asc ''AI'')), (asc ''index_type'', JStr (asc ''KCI''))]) =
     Inr [(asc ''topic'', PStr (asc ''AI'')), (asc ''field'', PStr []),
          (asc ''keywords'', PStr []), (asc ''index_type'', PStr (asc ''KCI''))]"
  by (simp add: JournalRequest_def dict_of_def asc_def)

lemma prompt_journal_example:
  "f_string [(asc ''topic'', PStr (asc ''AI'')), (asc ''field'', PStr []),
             (asc ''keywords'', PStr []), (asc ''index_type'', PStr (asc ''KCI''))]
     (template POST_journal) =
     Some (match_journal_text0 @ asc ''AI'' @ match_journal_text1 @ [0xBBF8, 0xC9C0, 0xC815] @
           match_journal_text2 @ [0xBBF8, 0xC9C0, 0xC815] @ match_journal_text3 @
           asc ''KCI'' @ match_journal_text4)"
  by (simp add: match_journal_prompt_def getattr_def py_or_def asc_def)

text \<open>
  Claim C2. On each prompt endpoint, for a request that validation accepts: when the
  provider's call raises the authentication failure the answer is HTTP 401, when it raises
  the rate limit HTTP 429, when it raises anything else HTTP 500; the detail is never
  empty, and for any other error it ends with the provider's message. The provider is
  called once: no retry.
\<close>

theorem error_translation:
  assumes "r \<in> set prompt_routes"
    and "model_validate (request_class r) (dict_of kvs) = Inr req"
    and "f_string req (template r) = Some prompt"
    and "cl (messages_create_params prompt) = Raise e"
  shows "\<exists>detail.
           app cl r (JObj kvs) calls =
             (Error (case e of AuthenticationError m \<Rightarrow> 401 | RateLimitError m \<Rightarrow> 429
                     | OtherException m \<Rightarrow> 500) detail,
              calls @ [messages_create_params prompt]) \<and>
           detail \<noteq> [] \<and>
           (case e of OtherException m \<Rightarrow> suffix m detail | _ \<Rightarrow> True)"
  using assms(4)
  by (cases e) (simp_all add: app_valid[OF assms(1-3)] call_claude_def call_claude_try_def
      suffix_def)

theorem error_translation_witness:
  "\<exists>detail.
     app (fixed_client (Raise (OtherException (asc ''overloaded'')))) POST_journal
       (JObj [(asc ''topic'', JStr (asc ''AI'')), (asc ''index_type'', JStr (asc ''KCI''))]) [] =
       (Error 500 detail,
        [messages_create_params
           (match_journal_text0 @ asc ''AI'' @ match_journal_text1 @ [0xBBF8, 0xC9C0, 0xC815] @
            match_journal_text2 @ [0xBBF8, 0xC9C0, 0xC815] @ match_journal_text3 @
            asc ''KCI'' @ match_journal_text4)]) \<and>
     detail \<noteq> [] \<and> suffix (asc ''overloaded'') detail"
proof -
  have r: "POST_journal \<in> set prompt_routes"
    by (simp add: prompt_routes_def)
  have c: "fixed_client (Raise (OtherException (asc ''overloaded'')))
             (messages_create_params
               (match_journal_text0 @ asc ''AI'' @ match_journal_text1 @
                [0xBBF8, 0xC9C0, 0xC815] @ match_journal_text2 @ [0xBBF8, 0xC9C0, 0xC815] @
                match_journal_text3 @ asc ''KCI'' @ match_journal_text4)) =
           Raise (OtherException (asc ''overloaded''))"
    by (simp add: fixed_client_def)
  show ?thesis
    using error_translation[where cl = "fixed_client (Raise (OtherException (asc ''overloaded'')))"
        and calls = "[]", OF r validate_journal_example prompt_journal_example c]
    by simp
qed

section \<open>Required and optional fields\<close>

text \<open>
  Claim C3. On each prompt endpoint, a request whose body has no \<open>topic\<close>, and on
  \<open>/api/review-response\<close> also one whose body has no \<open>reviewer_comment\<close>, is
  rejected by validation with a "missing" error for that field, and the provider is not
  called: the log of calls is unchanged.
\<close>

theorem missing_required_rejected:
  assumes "r \<in> set prompt_routes"
    and "k = asc ''topic'' \<or> (r = POST_review_response \<and> k = asc ''reviewer_comment'')"
    and "dict_of kvs k = None"
  shows "\<exists>es. app cl r (JObj kvs) calls = (Unprocessable es, calls) \<and> (k, Missing) \<in> set es"
proof -
  have "(k, Required StrT) \<in> set (request_class r)"
    using assms(1,2) by (auto dest!: prompt_routes_cases simp: request_class_defs)
  moreover have "validate_field k (Required StrT) (dict_of kvs k) = Inl (k, Missing)"
    using assms(3) by simp
  ultimately obtain es where
    "model_validate (request_class r) (dict_of kvs) = Inl es" "(k, Missing) \<in> set es"
    using model_validate_error by blast
  then show ?thesis using app_invalid[OF assms(1)] by blast
qed

theorem missing_required_rejected_witness:
  "\<exists>es. app (fixed_client (Message [TextBlock (asc ''X'')])) POST_review_response
          (JObj [(asc ''topic'', JStr (asc ''AI''))]) [] = (Unprocessable es, []) \<and>
        (asc ''reviewer_comment'', Missing) \<in> set es"
proof -
  have r: "POST_review_response \<in> set prompt_routes"
    by (simp add: prompt_routes_def)
  have k: "asc ''reviewer_comment'' = asc ''topic'' \<or>
           (POST_review_response = POST_review_response \<and>
            asc ''reviewer_comment'' = asc ''reviewer_comment'')"
    by simp
  have a: "dict_of [(asc ''topic'', JStr (asc ''AI''))] (asc ''reviewer_comment'') = None"
    by (simp add: dict_of_def asc_def)
  show ?thesis
    by (rule missing_required_rejected[OF r k a])
qed


lemma str_of_int_250: "str_of_int 250 = asc ''250''"
  by (simp add: str_of_int_def digits.simps asc_def)




lemma validate_literature_example:
  "model_validate (request_class POST_literature)
     (dict_of [(asc ''topic'', JStr (asc ''AI''))]) =
     Inr [(asc ''topic'', PStr (asc ''AI'')), (asc ''field'', PStr []),
          (asc ''keywords'', PStr []),
          (asc ''scope'', PStr [0xCD5C, 0xADFC, 0x20, 0x35, 0xB144]),
          (asc ''known_papers'', PStr [])]"
  by (simp add: LitReviewRequest_def dict_of_def asc_def)

lemma prompt_literature_example:
  "f_string [(asc ''topic'', PStr (asc ''AI'')), (asc ''field'', PStr []),
             (asc ''keywords'', PStr []),
             (asc ''scope'', PStr [0xCD5C, 0xADFC, 0x20, 0x35, 0xB144]),
             (asc ''known_papers'', PStr [])] (template POST_literature) =
     Some (literature_review_text0 @ asc ''AI'' @ literature_review_text1 @
           [0xBBF8, 0xC9C0, 0xC815] @ literature_review_text2 @ [0xBBF8, 0xC9C0, 0xC815] @
           literature_review_text3 @ [0xCD5C, 0xADFC, 0x20, 0x35, 0xB144] @
           literature_review_text4 @ [0xC5C6, 0xC74C] @ literature_review_text5)"
  by (simp add: literature_review_prompt_def getattr_def py_or_def asc_def)

lemma no_english_scope:
  "\<not> sublist (asc ''recent 5 years'')
       (literature_review_text0 @ asc ''AI'' @ literature_review_text1 @
        [0xBBF8, 0xC9C0, 0xC815] @ literature_review_text2 @ [0xBBF8, 0xC9C0, 0xC815] @
        literature_review_text3 @ [0xCD5C, 0xADFC, 0x20, 0x35, 0xB144] @
        literature_review_text4 @ [0xC5C6, 0xC74C] @ literature_review_text5)"
  by (simp add: literature_review_text0_def literature_review_text1_def
      literature_review_text2_def literature_review_text3_def literature_review_text4_def
      literature_review_text5_def asc_def sublist_code prefix_code)

text \<open>
  Claim C5, as the specification states it, fails: the default of \<open>scope\<close> is not the
  string "recent 5 years". A request to \<open>/api/literature\<close> with a topic only is
  validated with \<open>scope\<close> set to the Korean text U+CD5C U+ADFC " 5" U+B144, and
  "recent 5 years" occurs nowhere in the prompt built from it.
\<close>

theorem scope_default_not_english:
  "model_validate (request_class POST_literature)
     (dict_of [(asc ''topic'', JStr (asc ''AI''))]) =
     Inr [(asc ''topic'', PStr (asc ''AI'')), (asc ''field'', PStr []),
          (asc ''keywords'', PStr []),
          (asc ''scope'', PStr [0xCD5C, 0xADFC, 0x20, 0x35, 0xB144]),
          (asc ''known_papers'', PStr [])] \<and>
   [0xCD5C, 0xADFC, 0x20, 0x35, 0xB144] \<noteq> asc ''recent 5 years'' \<and>
   map_option (sublist (asc ''recent 5 years''))
     (f_string [(asc ''topic'', PStr (asc ''AI'')), (asc ''field'', PStr []),
                (asc ''keywords'', PStr []),
                (asc ''scope'', PStr [0xCD5C, 0xADFC, 0x20, 0x35, 0xB144]),
                (asc ''known_papers'', PStr [])] (template POST_literature)) = Some False"
proof (intro conjI)
  show "model_validate (request_class POST_literature)
     (dict_of [(asc ''topic'', JStr (asc ''AI''))]) =
     Inr [(asc ''topic'', PStr (asc ''AI'')), (asc ''field'', PStr []),
          (asc ''keywords'', PStr []),
          (asc ''scope'', PStr [0xCD5C, 0xADFC, 0x20, 0x35, 0xB144]),
          (asc ''known_papers'', PStr [])]"
    by (rule validate_literature_example)
  show "[0xCD5C, 0xADFC, 0x20, 0x35, 0xB144] \<noteq> asc ''recent 5 years''"
    by (simp add: asc_def)
  have "sublist (asc ''recent 5 years'')
       (literature_review_text0 @ asc ''AI'' @ literature_review_text1 @
        [0xBBF8, 0xC9C0, 0xC815] @ literature_review_text2 @ [0xBBF8, 0xC9C0, 0xC815] @
        literature_review_text3 @ [0xCD5C, 0xADFC, 0x20, 0x35, 0xB144] @
        literature_review_text4 @ [0xC5C6, 0xC74C] @ literature_review_text5) = False"
    using no_english_scope by blast
  then show "map_option (sublist (asc ''recent 5 years''))
     (f_string [(asc ''topic'', PStr (asc ''AI'')), (asc ''field'', PStr []),
                (asc ''keywords'', PStr []),
                (asc ''scope'', PStr [0xCD5C, 0xADFC, 0x20, 0x35, 0xB144]),
                (asc ''known_papers'', PStr [])] (template POST_literature)) = Some False"
    by (simp only: prompt_literature_example option.map)
qed

text \<open>
  Claim C5, amended. The defaults of the request classes are the Korean strings of the
  source (and 250, "SCI/SCIE"): for a request that validation accepts, an absent
  \<open>scope\<close> on \<open>/api/literature\<close> is U+CD5C U+ADFC " 5" U+B144 (recent 5 years), an
  absent \<open>paper_type\<close> on \<open>/api/structure\<close> is U+C6D0 U+C800 (original article), an
  absent \<open>language\<close> on \<open>/api/introduction\<close>, \<open>/api/abstract\<close> and
  \<open>/api/review-response\<close> is U+D55C U+AD6D U+C5B4 (Korean), an absent
  \<open>word_count\<close> on \<open>/api/abstract\<close> is 250 and an absent \<open>index_type\<close> on
  \<open>/api/journal\<close> is "SCI/SCIE"; the text of the default is part of the prompt that
  the provider receives.
\<close>

theorem declared_defaults_in_prompt:
  assumes "model_validate (request_class r) (dict_of kvs) = Inr req"
    and "dict_of kvs k = None"
    and "(r = POST_literature \<and> k = asc ''scope'' \<and>
            s = [0xCD5C, 0xADFC, 0x20, 0x35, 0xB144]) \<or>
         (r = POST_structure \<and> k = asc ''paper_type'' \<and> s = [0xC6D0, 0xC800]) \<or>
         ((r = POST_introduction \<or> r = POST_abstract \<or> r = POST_review_response) \<and>
            k = asc ''language'' \<and> s = [0xD55C, 0xAD6D, 0xC5B4]) \<or>
         (r = POST_abstract \<and> k = asc ''word_count'' \<and> s = asc ''250'') \<or>
         (r = POST_journal \<and> k = asc ''index_type'' \<and> s = asc ''SCI/SCIE'')"
  shows "\<exists>d prompt.
           getattr req k = Some d \<and> py_str d = s \<and>
           Attr k \<in> set (template r) \<and>
           f_string req (template r) = Some prompt \<and>
           snd (app cl r (JObj kvs) calls) = calls @ [messages_create_params prompt] \<and>
           sublist s prompt"
proof -
  have r: "r \<in> set prompt_routes"
    using assms(3) by (auto simp: prompt_routes_def)
  obtain t d where m: "(k, Optional t d) \<in> set (request_class r)" and s: "py_str d = s"
    using assms(3) by (auto simp: request_class_defs str_of_int_250 asc_def)
  have slot: "Attr k \<in> set (template r)"
    using assms(3) by (auto simp: template_defs)
  obtain v where "validate_field k (Optional t d) (dict_of kvs k) = Inr v" "getattr req k = Some v"
    using model_validate_getattr[OF assms(1) request_class_distinct m] by blast
  then have g: "getattr req k = Some d" using assms(2) by simp
  obtain prompt where p: "f_string req (template r) = Some prompt"
    using valid_prompt[OF assms(1)] by blast
  obtain w where "part_str req (Attr k) = Some w" "sublist w prompt"
    using f_string_part[OF p slot] by blast
  then have "sublist s prompt" using g s by simp
  then show ?thesis using g s slot p app_valid[OF r assms(1) p] by auto
qed

theorem declared_defaults_in_prompt_witness:
  "\<exists>d prompt.
     getattr [(asc ''topic'', PStr (asc ''AI'')), (asc ''field'', PStr []),
              (asc ''keywords'', PStr []),
              (asc ''scope'', PStr [0xCD5C, 0xADFC, 0x20, 0x35, 0xB144]),
              (asc ''known_papers'', PStr [])] (asc ''scope'') = Some d \<and>
     py_str d = [0xCD5C, 0xADFC, 0x20, 0x35, 0xB144] \<and>
     Attr (asc ''scope'') \<in> set (template POST_literature) \<and>
     f_string [(asc ''topic'', PStr (asc ''AI'')), (asc ''field'', PStr []),
               (asc ''keywords'', PStr []),
               (asc ''scope'', PStr [0xCD5C, 0xADFC, 0x20, 0x35, 0xB144]),
               (asc ''known_papers'', PStr [])] (template POST_literature) = Some prompt \<and>
     snd (app (fixed_client (Message [TextBlock (asc ''X'')])) POST_literature
            (JObj [(asc ''topic'', JStr (asc ''AI''))]) []) =
       [] @ [messages_create_params prompt] \<and>
     sublist [0xCD5C, 0xADFC, 0x20, 0x35, 0xB144] prompt"
proof -
  have a: "dict_of [(asc ''topic'', JStr (asc ''AI''))] (asc ''scope'') = None"
    by (simp add: dict_of_def asc_def)
  have c: "(POST_literature = POST_literature \<and> asc ''scope'' = asc ''scope'' \<and>
            [0xCD5C, 0xADFC, 0x20, 0x35, 0xB144] = [0xCD5C, 0xADFC, 0x20, 0x35, 0xB144::nat]) \<or>
         (POST_literature = POST_structure \<and> asc ''scope'' = asc ''paper_type'' \<and>
            [0xCD5C, 0xADFC, 0x20, 0x35, 0xB144] = [0xC6D0, 0xC800]) \<or>
         ((POST_literature = POST_introduction \<or> POST_literature = POST_abstract \<or>
            POST_literature = POST_review_response) \<and>
            asc ''scope'' = asc ''language'' \<and>
            [0xCD5C, 0xADFC, 0x20, 0x35, 0xB144] = [0xD55C, 0xAD6D, 0xC5B4]) \<or>
         (POST_literature = POST_abstract \<and> asc ''scope'' = asc ''word_count'' \<and>
            [0xCD5C, 0xADFC, 0x20, 0x35, 0xB144] = asc ''250'') \<or>
         (POST_literature = POST_journal \<and> asc ''scope'' = asc ''index_type'' \<and>
            [0xCD5C, 0xADFC, 0x20, 0x35, 0xB144] = asc ''SCI/SCIE'')"
    by simp
  show ?thesis
    by (rule declared_defaults_in_prompt[OF validate_literature_example a c])
qed

lemma validate_review_comment_only:
  "model_validate (request_class POST_review_response)
     (dict_of [(asc ''reviewer_comment'', JStr (asc ''unclear''))]) =
     Inl [(asc ''topic'', Missing)]"
  by (simp add: ReviewRequest_def dict_of_def asc_def)

lemma validate_review_topic_only:
  "model_validate (request_class POST_review_response)
     (dict_of [(asc ''topic'', JStr (asc ''AI''))]) =
     Inl [(asc ''reviewer_comment'', Missing)]"
  by (simp add: ReviewRequest_def dict_of_def asc_def)

text \<open>
  Claim C6, as the specification states it, fails: \<open>ReviewRequest\<close> has two required
  fields. A request to \<open>/api/review-response\<close> that carries the reviewer comment and
  no topic is rejected for the missing topic, and one that carries the topic and no
  reviewer comment is rejected for the missing comment.
\<close>

theorem review_request_two_required:
  "required_fields (request_class POST_review_response) =
     [asc ''topic'', asc ''reviewer_comment''] \<and>
   length (required_fields (request_class POST_review_response)) = 2 \<and>
   app (fixed_client (Message [TextBlock (asc ''X'')])) POST_review_response
     (JObj [(asc ''reviewer_comment'', JStr (asc ''unclear''))]) [] =
     (Unprocessable [(asc ''topic'', Missing)], []) \<and>
   app (fixed_client (Message [TextBlock (asc ''X'')])) POST_review_response
     (JObj [(asc ''topic'', JStr (asc ''AI''))]) [] =
     (Unprocessable [(asc ''reviewer_comment'', Missing)], [])"
proof -
  have r: "POST_review_response \<in> set prompt_routes"
    by (simp add: prompt_routes_def)
  show ?thesis
    using app_invalid[OF r validate_review_comment_only]
      app_invalid[OF r validate_review_topic_only]
    by (simp add: ReviewRequest_def)
qed

text \<open>
  Claim C6, amended. Every prompt endpoint's request class requires \<open>topic\<close>; the class
  of \<open>/api/review-response\<close> requires \<open>reviewer_comment\<close> as well; every other field
  is optional with a declared default. A body that gives each required field as a string
  and no other field is accepted.
\<close>

theorem required_fields_of_endpoints:
  assumes "r \<in> set prompt_routes"
  shows "required_fields (request_class r) =
           (if r = POST_review_response then [asc ''topic'', asc ''reviewer_comment'']
            else [asc ''topic'']) \<and>
         (\<forall>(k, fi) \<in> set (request_class r).
            k \<in> set (required_fields (request_class r)) \<or> (\<exists>t d. fi = Optional t d)) \<and>
         ((\<forall>k \<in> set (required_fields (request_class r)). \<exists>s. dict_of kvs k = Some (JStr s)) \<and>
          (\<forall>k. k \<notin> set (required_fields (request_class r)) \<longrightarrow> dict_of kvs k = None) \<longrightarrow>
          (\<exists>req. model_validate (request_class r) (dict_of kvs) = Inr req))"
proof (intro conjI impI)
  show "required_fields (request_class r) =
           (if r = POST_review_response then [asc ''topic'', asc ''reviewer_comment'']
            else [asc ''topic''])"
    by (rule required_fields_routes[OF assms])
  show "\<forall>(k, fi) \<in> set (request_class r).
            k \<in> set (required_fields (request_class r)) \<or> (\<exists>t d. fi = Optional t d)"
  proof (intro ballI, clarify)
    fix k fi
    assume "(k, fi) \<in> set (request_class r)" "\<not> (\<exists>t d. fi = Optional t d)"
    then show "k \<in> set (required_fields (request_class r))"
      by (cases fi) (auto simp: required_fields_mem)
  qed
next
  assume h: "(\<forall>k \<in> set (required_fields (request_class r)). \<exists>s. dict_of kvs k = Some (JStr s)) \<and>
          (\<forall>k. k \<notin> set (required_fields (request_class r)) \<longrightarrow> dict_of kvs k = None)"
  have "\<forall>(k, fi) \<in> set (request_class r).
          (case fi of Required t \<Rightarrow> t = StrT \<and> (\<exists>s. dict_of kvs k = Some (JStr s))
           | Optional t dflt \<Rightarrow> dict_of kvs k = None)"
  proof (intro ballI, clarify)
    fix k fi
    assume m: "(k, fi) \<in> set (request_class r)"
    show "case fi of Required t \<Rightarrow> t = StrT \<and> (\<exists>s. dict_of kvs k = Some (JStr s))
           | Optional t dflt \<Rightarrow> dict_of kvs k = None"
    proof (cases fi)
      case (Required t)
      then have "k \<in> set (required_fields (request_class r))"
        using m by (auto simp: required_fields_mem)
      then show ?thesis
        using h Required m request_class_required_str by auto
    next
      case (Optional t dflt)
      have "k \<notin> set (required_fields (request_class r))"
      proof
        assume "k \<in> set (required_fields (request_class r))"
        then obtain t' where "(k, Required t') \<in> set (request_class r)"
          by (auto simp: required_fields_mem)
        then have "Required t' = fi"
          using m request_class_distinct[of r] by (meson eq_key_imp_eq_value)
        then show False using Optional by simp
      qed
      then show ?thesis using h Optional by simp
    qed
  qed
  then show "\<exists>req. model_validate (request_class r) (dict_of kvs) = Inr req"
    by (rule model_validate_required_only)
qed

theorem required_fields_of_endpoints_witness:
  "required_fields (request_class POST_review_response) =
     [asc ''topic'', asc ''reviewer_comment''] \<and>
   (\<exists>req. model_validate (request_class POST_review_response)
      (dict_of [(asc ''topic'', JStr (asc ''AI'')),
                (asc ''reviewer_comment'', JStr (asc ''unclear''))]) = Inr req)"
proof -
  have r: "POST_review_response \<in> set prompt_routes"
    by (simp add: prompt_routes_def)
  have h: "(\<forall>k \<in> set [asc ''topic'', asc ''reviewer_comment''].
              \<exists>s. dict_of [(asc ''topic'', JStr (asc ''AI'')),
                (asc ''reviewer_comment'', JStr (asc ''unclear''))] k = Some (JStr s)) \<and>
          (\<forall>k. k \<notin> set [asc ''topic'', asc ''reviewer_comment''] \<longrightarrow>
              dict_of [(asc ''topic'', JStr (asc ''AI'')),
                (asc ''reviewer_comment'', JStr (asc ''unclear''))] k = None)"
    by (simp add: dict_of_def asc_def)
  show ?thesis
    using required_fields_of_endpoints[OF r,
        of "[(asc ''topic'', JStr (asc ''AI'')),
             (asc ''reviewer_comment'', JStr (asc ''unclear''))]"] h
    by simp
qed






section \<open>The liveness endpoint\<close>

text \<open>
  Claim C8. \<open>GET /health\<close> returns the object \<open>{"status": "ok"}\<close> and makes no call
  to the provider: whatever the provider does, whatever the request carries, the log of
  calls is unchanged.
\<close>

theorem health_static:
  "app cl GET_health body calls = (OK (JObj [(asc ''status'', JStr (asc ''ok''))]), calls)"
  by (simp add: health_def)

theorem health_static_witness:
  "app (fixed_client (Raise (AuthenticationError (asc ''invalid x-api-key'')))) GET_health
     JNull [] = (OK (JObj [(asc ''status'', JStr (asc ''ok''))]), [])"
  by (rule health_static)

section \<open>Optional fields given as null\<close>

lemma validate_structure_example:
  "model_validate (request_class POST_structure)
     (dict_of [(asc ''topic'', JStr (asc ''AI''))]) =
     Inr [(asc ''topic'', PStr (asc ''AI'')), (asc ''field'', PStr []),
          (asc ''keywords'', PStr []), (asc ''paper_type'', PStr [0xC6D0, 0xC800]),
          (asc ''methodology'', PStr [])]"
  by (simp add: StructureRequest_def dict_of_def asc_def)

text \<open>
  Claim C9. On each prompt endpoint, a request that is accepted is still accepted when an
  optional field is given as JSON \<open>null\<close>: the field is then \<open>None\<close> and the provider
  is called. For \<open>scope\<close>, \<open>paper_type\<close>, \<open>language\<close>, \<open>index_type\<close> and
  \<open>word_count\<close> the template place is \<open>{req.a}\<close> and the prompt has the text "None"
  at that place, not the default; for \<open>field\<close>, \<open>keywords\<close>, \<open>purpose\<close>,
  \<open>methodology\<close> and \<open>known_papers\<close> the place is \<open>{req.a or '...'}\<close> and the
  prompt has the placeholder there.
\<close>

theorem null_optional_field:
  assumes "r \<in> set prompt_routes"
    and "model_validate (request_class r) (dict_of kvs) = Inr req"
    and "(k, Optional t d) \<in> set (request_class r)"
  shows "\<exists>req' prompt.
           model_validate (request_class r) (dict_of (kvs @ [(k, JNull)])) = Inr req' \<and>
           getattr req' k = Some PNone \<and>
           f_string req' (template r) = Some prompt \<and>
           snd (app cl r (JObj (kvs @ [(k, JNull)])) calls) =
             calls @ [messages_create_params prompt] \<and>
           (k \<in> set [asc ''scope'', asc ''paper_type'', asc ''language'', asc ''index_type'',
                     asc ''word_count''] \<longrightarrow> Attr k \<in> set (template r)) \<and>
           (k \<in> set [asc ''field'', asc ''keywords'', asc ''purpose'', asc ''methodology'',
                     asc ''known_papers''] \<longrightarrow> (\<exists>ph. AttrOr k ph \<in> set (template r))) \<and>
           (\<forall>ps qs. template r = ps @ Attr k # qs \<longrightarrow>
              (\<exists>a b. f_string req' ps = Some a \<and> f_string req' qs = Some b \<and>
                 prompt = a @ asc ''None'' @ b)) \<and>
           (\<forall>ps ph qs. template r = ps @ AttrOr k ph # qs \<longrightarrow>
              (\<exists>a b. f_string req' ps = Some a \<and> f_string req' qs = Some b \<and>
                 prompt = a @ ph @ b))"
proof -
  have dist: "distinct (map fst (request_class r))"
    by (rule request_class_distinct)
  have opt: "\<forall>(k', fi) \<in> set (request_class r). k' = k \<longrightarrow> (\<exists>t dflt. fi = Optional t dflt)"
    using dist assms(3) by (auto dest: eq_key_imp_eq_value)
  define req' where "req' = map (\<lambda>(k', v). (k', if k' = k then PNone else v)) req"
  have v: "model_validate (request_class r) (dict_of (kvs @ [(k, JNull)])) = Inr req'"
    unfolding dict_of_snoc req'_def by (rule model_validate_null[OF assms(2) opt])
  obtain w where
    "validate_field k (Optional t d) (dict_of (kvs @ [(k, JNull)]) k) = Inr w"
    "getattr req' k = Some w"
    using model_validate_getattr[OF v dist assms(3)] by blast
  then have g: "getattr req' k = Some PNone"
    by (simp add: dict_of_snoc)
  obtain prompt where p: "f_string req' (template r) = Some prompt"
    using valid_prompt[OF v] by blast
  have plain: "Attr k \<in> set (template r)"
    if "k \<in> set [asc ''scope'', asc ''paper_type'', asc ''language'', asc ''index_type'',
                  asc ''word_count'']"
    using assms(1,3) that
    by (auto dest!: prompt_routes_cases simp: request_class_defs template_defs asc_def)
  have guarded: "\<exists>ph. AttrOr k ph \<in> set (template r)"
    if "k \<in> set [asc ''field'', asc ''keywords'', asc ''purpose'', asc ''methodology'',
                  asc ''known_papers'']"
    using assms(1,3) that
    by (auto dest!: prompt_routes_cases simp: request_class_defs template_defs asc_def)
  have at_plain: "\<exists>a b. f_string req' ps = Some a \<and> f_string req' qs = Some b \<and>
                 prompt = a @ asc ''None'' @ b"
    if "template r = ps @ Attr k # qs" for ps qs
    using f_string_split[of req' ps "Attr k" qs prompt] p that g by auto
  have at_guarded: "\<exists>a b. f_string req' ps = Some a \<and> f_string req' qs = Some b \<and>
                 prompt = a @ ph @ b"
    if "template r = ps @ AttrOr k ph # qs" for ps ph qs
    using f_string_split[of req' ps "AttrOr k ph" qs prompt] p that g
    by (auto simp: py_or_def)
  have once: "snd (app cl r (JObj (kvs @ [(k, JNull)])) calls) =
               calls @ [messages_create_params prompt]"
    by (simp add: app_valid[OF assms(1) v p])
  have places:
    "(k \<in> set [asc ''scope'', asc ''paper_type'', asc ''language'', asc ''index_type'',
                  asc ''word_count''] \<longrightarrow> Attr k \<in> set (template r)) \<and>
     (k \<in> set [asc ''field'', asc ''keywords'', asc ''purpose'', asc ''methodology'',
                  asc ''known_papers''] \<longrightarrow> (\<exists>ph. AttrOr k ph \<in> set (template r))) \<and>
     (\<forall>ps qs. template r = ps @ Attr k # qs \<longrightarrow>
        (\<exists>a b. f_string req' ps = Some a \<and> f_string req' qs = Some b \<and>
           prompt = a @ asc ''None'' @ b)) \<and>
     (\<forall>ps ph qs. template r = ps @ AttrOr k ph # qs \<longrightarrow>
        (\<exists>a b. f_string req' ps = Some a \<and> f_string req' qs = Some b \<and>
           prompt = a @ ph @ b))"
    using plain guarded at_plain at_guarded by blast
  show ?thesis
    by (rule exI[of _ req'], rule exI[of _ prompt]) (intro conjI v g p once places)
qed

theorem null_optional_field_witness:
  "\<exists>req' prompt.
     model_validate (request_class POST_structure)
       (dict_of ([(asc ''topic'', JStr (asc ''AI''))] @ [(asc ''paper_type'', JNull)])) =
       Inr req' \<and>
     getattr req' (asc ''paper_type'') = Some PNone \<and>
     f_string req' (template POST_structure) = Some prompt \<and>
     snd (app (fixed_client (Message [TextBlock (asc ''X'')])) POST_structure
            (JObj ([(asc ''topic'', JStr (asc ''AI''))] @ [(asc ''paper_type'', JNull)])) []) =
       [] @ [messages_create_params prompt] \<and>
     Attr (asc ''paper_type'') \<in> set (template POST_structure) \<and>
     (\<exists>a b.
        f_string req'
          [Text paper_structure_text0, Attr (asc ''topic''), Text paper_structure_text1,
           AttrOr (asc ''field'') [0xBBF8, 0xC9C0, 0xC815], Text paper_structure_text2,
           AttrOr (asc ''keywords'') [0xBBF8, 0xC9C0, 0xC815], Text paper_structure_text3] =
          Some a \<and>
        f_string req'
          [Text paper_structure_text4, AttrOr (asc ''methodology'') [0xBBF8, 0xC9C0, 0xC815],
           Text paper_structure_text5] = Some b \<and>
        prompt = a @ asc ''None'' @ b)"
proof -
  have r: "POST_structure \<in> set prompt_routes"
    by (simp add: prompt_routes_def)
  have m: "(asc ''paper_type'', Optional StrT (PStr [0xC6D0, 0xC800])) \<in>
             set (request_class POST_structure)"
    by (simp add: StructureRequest_def)
  have k: "asc ''paper_type'' \<in> set [asc ''scope'', asc ''paper_type'', asc ''language'',
             asc ''index_type'', asc ''word_count'']"
    by simp
  have t: "template POST_structure =
             [Text paper_structure_text0, Attr (asc ''topic''), Text paper_structure_text1,
              AttrOr (asc ''field'') [0xBBF8, 0xC9C0, 0xC815], Text paper_structure_text2,
              AttrOr (asc ''keywords'') [0xBBF8, 0xC9C0, 0xC815], Text paper_structure_text3] @
             Attr (asc ''paper_type'') #
             [Text paper_structure_text4, AttrOr (asc ''methodology'') [0xBBF8, 0xC9C0, 0xC815],
              Text paper_structure_text5]"
    by (simp add: paper_structure_prompt_def)
  show ?thesis
    using null_optional_field[where cl = "fixed_client (Message [TextBlock (asc ''X'')])"
        and calls = "[]", OF r validate_structure_example m] k t
    by blast
qed

section \<open>What \<open>call_claude\<close> raises\<close>

text \<open>
  Claim C10. No exception other than an \<open>HTTPException\<close> of its own error mapping
  leaves \<open>call_claude\<close>: what it raises has status 401, 429 or 500. When the provider's
  call succeeds and the content list of the message is empty, the indexing error is caught
  by the generic clause: \<open>call_claude\<close> raises \<open>HTTPException\<close> 500 whose detail is
  "AI ... : " (U+BD84 U+C11D, U+C911, U+C624 U+B958) followed by the error's text.
\<close>

theorem call_claude_raises_only_http:
  "(\<forall>e. fst (call_claude cl prompt calls) \<noteq> Inl (Uncaught e)) \<and>
   (\<forall>c d. fst (call_claude cl prompt calls) = Inl (HTTPException c d) \<longrightarrow>
      c = 401 \<or> c = 429 \<or> c = 500) \<and>
   (cl (messages_create_params prompt) = Message [] \<longrightarrow>
      fst (call_claude cl prompt calls) =
        Inl (HTTPException 500
          ([0x41, 0x49, 0x20, 0xBD84, 0xC11D, 0x20, 0xC911, 0x20, 0xC624, 0xB958, 0x3A, 0x20] @
            asc ''list index out of range'')))"
  by (auto simp: call_claude_def call_claude_try_def
      split: sum.splits exception.splits create_result.splits list.splits block.splits)

theorem call_claude_raises_only_http_witness:
  "fst (call_claude (fixed_client (Message [])) (asc ''prompt'') []) =
     Inl (HTTPException 500
       ([0x41, 0x49, 0x20, 0xBD84, 0xC11D, 0x20, 0xC911, 0x20, 0xC624, 0xB958, 0x3A, 0x20] @
         asc ''list index out of range''))"
proof -
  have c: "fixed_client (Message []) (messages_create_params (asc ''prompt'')) = Message []"
    by (simp add: fixed_client_def)
  show ?thesis
    using call_claude_raises_only_http[of "fixed_client (Message [])" "asc ''prompt''" "[]"] c
    by blast
qed

end
